theory Spec2Isabelle
  imports Complex_Main "HOL-Library.Sublist"
begin

section \<open>JavaScript values\<close>

text \<open>
  A JavaScript number is a 64 bit double: a finite number, which is a rational, or one
  of the three special values. Every double is a value of this type (the two zeros,
  which \<open>===\<close> identifies, are one value); the type makes no statement on which
  rationals are doubles, and the arithmetic operators, which round, are not defined
  here.
\<close>

datatype js_number = Num rat | NaN | PosInfinity | NegInfinity

text \<open>\<open>a !== b\<close> on two numbers: \<open>NaN\<close> differs from everything, itself included.\<close>

definition strict_neq :: "js_number \<Rightarrow> js_number \<Rightarrow> bool" where
  "strict_neq a b = (a = NaN \<or> b = NaN \<or> a \<noteq> b)"

text \<open>\<open>a === b\<close> on two numbers.\<close>

definition strict_eq :: "js_number \<Rightarrow> js_number \<Rightarrow> bool" where
  "strict_eq a b = (\<not> strict_neq a b)"

text \<open>
  A value thrown by JavaScript code: an \<open>Error\<close> instance with its message, an
  \<open>HttpError\<close> (a subclass of \<open>Error\<close>) with its status and message, a plain object of
  the shape \<open>{status, message, success}\<close>, or any other value, kept as the text
  \<open>String(value)\<close> gives.
\<close>

datatype thrown =
    JsError string
  | HttpError int string
  | ApiErrorObject int string
  | Thrown string

text \<open>\<open>error instanceof Error ? error.message : dflt\<close>\<close>

definition error_message :: "thrown \<Rightarrow> string \<Rightarrow> string" where
  "error_message e dflt =
     (case e of JsError m \<Rightarrow> m | HttpError s m \<Rightarrow> m | ApiErrorObject s m \<Rightarrow> dflt | Thrown s \<Rightarrow> dflt)"

text \<open>\<open>error instanceof Error ? error.message : String(error)\<close>\<close>

definition error_message_or_string :: "thrown \<Rightarrow> string" where
  "error_message_or_string e =
     (case e of JsError m \<Rightarrow> m | HttpError s m \<Rightarrow> m
      | ApiErrorObject s m \<Rightarrow> ''[object Object]'' | Thrown s \<Rightarrow> s)"

text \<open>The truth value JavaScript gives an optional string: absent and empty are false.\<close>

definition truthy :: "string option \<Rightarrow> bool" where
  "truthy s = (case s of None \<Rightarrow> False | Some v \<Rightarrow> v \<noteq> [])"

text \<open>Values of template data (\<open>z.record(z.string(), z.any())\<close>).\<close>

datatype js_value =
    JNull
  | JBool bool
  | JNumber js_number
  | JString string
  | JArray "js_value list"
  | JObject "(string \<times> js_value) list"

type_synonym TemplateDataType = "(string \<times> js_value) list"

section \<open>The arithmetic helpers of the template engine (mailer/config.ts)\<close>

text \<open>
  The operators of the language on two numbers, which round their result to a double,
  and \<open>String\<close> on a number: parameters, as the language defines them.
\<close>

record js_operators =
  op_add :: "js_number \<Rightarrow> js_number \<Rightarrow> js_number"
  op_sub :: "js_number \<Rightarrow> js_number \<Rightarrow> js_number"
  op_mul :: "js_number \<Rightarrow> js_number \<Rightarrow> js_number"
  op_div :: "js_number \<Rightarrow> js_number \<Rightarrow> js_number"
  op_rem :: "js_number \<Rightarrow> js_number \<Rightarrow> js_number"
  op_to_string :: "js_number \<Rightarrow> string"

text \<open>\<open>registerHelper("add", (a, b) => a + b)\<close>, and likewise \<open>subtract\<close>, \<open>multiply\<close>\<close>

definition add_helper :: "js_operators \<Rightarrow> js_number \<Rightarrow> js_number \<Rightarrow> js_number" where
  "add_helper ops a b = op_add ops a b"

definition subtract_helper :: "js_operators \<Rightarrow> js_number \<Rightarrow> js_number \<Rightarrow> js_number" where
  "subtract_helper ops a b = op_sub ops a b"

definition multiply_helper :: "js_operators \<Rightarrow> js_number \<Rightarrow> js_number \<Rightarrow> js_number" where
  "multiply_helper ops a b = op_mul ops a b"

text \<open>\<open>registerHelper("divide", (a, b) => (b !== 0 ? a / b : 0))\<close>\<close>

definition divide_helper :: "js_operators \<Rightarrow> js_number \<Rightarrow> js_number \<Rightarrow> js_number" where
  "divide_helper ops a b = (if strict_neq b (Num 0) then op_div ops a b else Num 0)"

text \<open>\<open>registerHelper("modulo", (a, b) => (b !== 0 ? a % b : 0))\<close>\<close>

definition modulo_helper :: "js_operators \<Rightarrow> js_number \<Rightarrow> js_number \<Rightarrow> js_number" where
  "modulo_helper ops a b = (if strict_neq b (Num 0) then op_rem ops a b else Num 0)"

text \<open>The arithmetic helpers as \<open>initializeHandlebars\<close> registers them, by name.\<close>

definition math_helpers ::
  "js_operators \<Rightarrow> string \<Rightarrow> (js_number \<Rightarrow> js_number \<Rightarrow> js_number) option" where
  "math_helpers ops name =
     (if name = ''add'' then Some (add_helper ops)
      else if name = ''subtract'' then Some (subtract_helper ops)
      else if name = ''multiply'' then Some (multiply_helper ops)
      else if name = ''divide'' then Some (divide_helper ops)
      else if name = ''modulo'' then Some (modulo_helper ops)
      else None)"

text \<open>
  What the template engine renders for \<open>{{helper x y}}\<close>, for a registered arithmetic
  helper and two fields of the data that hold numbers: the helper is called with the two
  numbers and its result is printed as \<open>String\<close> prints it (no character of a printed
  number is escaped). Every other case (another helper, a field that is missing or not
  a number) is outside this model and is \<open>None\<close>.
\<close>

definition render_helper_call ::
  "js_operators \<Rightarrow> string \<Rightarrow> string \<Rightarrow> string \<Rightarrow> TemplateDataType \<Rightarrow> string option" where
  "render_helper_call ops helper x y tdata =
     (case math_helpers ops helper of
        None \<Rightarrow> None
      | Some f \<Rightarrow>
          (case map_of tdata x of
             Some (JNumber a) \<Rightarrow>
               (case map_of tdata y of
                  Some (JNumber b) \<Rightarrow> Some (op_to_string ops (f a b))
                | _ \<Rightarrow> None)
           | _ \<Rightarrow> None))"

section \<open>Service responses (utils/serviceApi.ts)\<close>

record 'a ServiceApiResponse =
  resp_status :: int
  resp_message :: string
  resp_data :: 'a

definition createResponse :: "int \<Rightarrow> string \<Rightarrow> 'a \<Rightarrow> 'a ServiceApiResponse" where
  "createResponse st msg d = \<lparr>resp_status = st, resp_message = msg, resp_data = d\<rparr>"

text \<open>
  \<open>ServiceResponse.createErrorResponse\<close> never returns: it throws the value computed
  here (an \<open>HttpError\<close> is thrown again as it is, an object of the API error shape keeps
  its status and message, everything else becomes an internal server error).
\<close>

definition createErrorResponse :: "thrown \<Rightarrow> thrown" where
  "createErrorResponse e =
     (case e of
        HttpError s m \<Rightarrow> HttpError s m
      | ApiErrorObject s m \<Rightarrow> HttpError s m
      | JsError m \<Rightarrow> HttpError 500 ''Internal Server Error''
      | Thrown s \<Rightarrow> HttpError 500 ''Internal Server Error'')"

section \<open>Transport options and the SMTP connection check (EmailService)\<close>

record tls_options =
  tls_rejectUnauthorized :: "bool option"
  tls_minVersion :: "string option"
  tls_ciphers :: "string option"

text \<open>The options object handed to \<open>nodemailer.createTransport\<close>.\<close>

record smtp_options =
  opt_host :: string
  opt_port :: js_number
  opt_secure :: bool
  opt_requireTLS :: "bool option"
  opt_auth_user :: string
  opt_auth_pass :: string
  opt_service :: "string option"
  opt_tls :: "tls_options option"
  opt_connectionTimeout :: "nat option"
  opt_greetingTimeout :: "nat option"
  opt_socketTimeout :: "nat option"

text \<open>\<open>EmailUpdateSchemaType\<close>: the input of the connection check.\<close>

record EmailUpdate =
  upd_host :: string
  upd_port :: js_number
  upd_secure :: bool
  upd_username :: string
  upd_password :: string
  upd_fromName :: string
  upd_fromEmail :: string

text \<open>\<open>Number(x)\<close> on a value that is a number already gives it back unchanged.\<close>

definition js_Number :: "js_number \<Rightarrow> js_number" where
  "js_Number n = n"

text \<open>A number with no fractional part.\<close>

definition is_integer :: "js_number \<Rightarrow> bool" where
  "is_integer n = (case n of Num r \<Rightarrow> of_int \<lfloor>r\<rfloor> = r | NaN \<Rightarrow> False
                   | PosInfinity \<Rightarrow> False | NegInfinity \<Rightarrow> False)"

text \<open>
  The first half of \<open>validateSmtpConnection\<close>: the port, the two settings derived from
  it, and the options of the transient transport.
\<close>

definition smtp_connection_options :: "EmailUpdate \<Rightarrow> smtp_options" where
  "smtp_connection_options smtpConfig =
     (let port = js_Number (upd_port smtpConfig);
          secure0 = upd_secure smtpConfig;
          requireTLS0 = False;
          (secure, requireTLS) =
            (if strict_eq port (Num 465) then (True, requireTLS0)
             else if strict_eq port (Num 587) \<or> strict_eq port (Num 25) then (False, True)
             else (secure0, requireTLS0))
      in \<lparr>opt_host = upd_host smtpConfig,
          opt_port = port,
          opt_secure = secure,
          opt_requireTLS = Some requireTLS,
          opt_auth_user = upd_username smtpConfig,
          opt_auth_pass = upd_password smtpConfig,
          opt_service = None,
          opt_tls = Some \<lparr>tls_rejectUnauthorized = Some False,
                           tls_minVersion = Some ''TLSv1'',
                           tls_ciphers = Some ''SSLv3''\<rparr>,
          opt_connectionTimeout = Some 10000,
          opt_greetingTimeout = Some 10000,
          opt_socketTimeout = Some 10000\<rparr>)"

text \<open>
  \<open>validateSmtpConnection\<close>: the transient transport is verified (\<open>verify\<close> is the mail
  library's liveness check, a parameter); a failure is thrown on by
  \<open>createErrorResponse\<close>.
\<close>

definition validateSmtpConnection ::
  "(smtp_options \<Rightarrow> thrown + unit) \<Rightarrow> EmailUpdate \<Rightarrow> thrown + bool ServiceApiResponse" where
  "validateSmtpConnection verify smtpConfig =
     (case verify (smtp_connection_options smtpConfig) of
        Inl e \<Rightarrow> Inl (createErrorResponse e)
      | Inr u \<Rightarrow> Inr (createResponse 200 ''SMTP connection validated successfully'' True))"

section \<open>Messages and their schema (mailer/schema.ts)\<close>

text \<open>
  Strings are the UTF-8 bytes of the JavaScript string. A field of the message that may
  be absent is an option; a field present with the empty string is \<open>Some []\<close>.
\<close>

datatype one_or_many = One string | Many "string list"

datatype attachment_content = ContentString string | ContentBuffer string

record attachment =
  att_filename :: string
  att_path :: "string option"
  att_content :: "attachment_content option"
  att_contentType :: "string option"

text \<open>\<open>EmailMessageSchemaType\<close>\<close>

record EmailMessage =
  msg_to :: one_or_many
  msg_subject :: string
  msg_text :: "string option"
  msg_html :: "string option"
  msg_templateHtml :: "string option"
  msg_templateData :: "TemplateDataType option"
  msg_name :: "string option"
  msg_from :: "string option"
  msg_cc :: "one_or_many option"
  msg_bcc :: "one_or_many option"
  msg_attachments :: "attachment list option"

text \<open>
  \<open>validateEmail\<close>: a string of at least one character in the e-mail format. The format
  check is the validation library's, a parameter \<open>is_email\<close>.
\<close>

definition validateEmail :: "(string \<Rightarrow> bool) \<Rightarrow> string \<Rightarrow> bool" where
  "validateEmail is_email s = (1 \<le> length s \<and> is_email s)"

text \<open>\<open>validateEmailOrArray\<close>: one address, or an array of addresses.\<close>

fun validateEmailOrArray :: "(string \<Rightarrow> bool) \<Rightarrow> one_or_many \<Rightarrow> bool" where
  "validateEmailOrArray is_email (One s) = validateEmail is_email s"
| "validateEmailOrArray is_email (Many ss) = list_all (validateEmail is_email) ss"

text \<open>A check of an optional field passes when the field is absent.\<close>

definition optional :: "('a \<Rightarrow> bool) \<Rightarrow> 'a option \<Rightarrow> bool" where
  "optional chk v = (case v of None \<Rightarrow> True | Some x \<Rightarrow> chk x)"

text \<open>The object schema: the checks of the fields (the typed fields need no type check).\<close>

definition emailMessage_fields_ok :: "(string \<Rightarrow> bool) \<Rightarrow> EmailMessage \<Rightarrow> bool" where
  "emailMessage_fields_ok is_email m =
     (validateEmailOrArray is_email (msg_to m)
      \<and> 1 \<le> length (msg_subject m)
      \<and> optional (validateEmail is_email) (msg_from m)
      \<and> optional (validateEmailOrArray is_email) (msg_cc m)
      \<and> optional (validateEmailOrArray is_email) (msg_bcc m)
      \<and> optional (list_all (\<lambda>a. 1 \<le> length (att_filename a))) (msg_attachments m))"

text \<open>\<open>.refine(data => data.text || data.html || data.templateHtml)\<close>\<close>

definition emailMessage_refine :: "EmailMessage \<Rightarrow> bool" where
  "emailMessage_refine m =
     (truthy (msg_text m) \<or> truthy (msg_html m) \<or> truthy (msg_templateHtml m))"

text \<open>The options of \<open>transporter.sendMail\<close> and what a successful send reports.\<close>

record SendMailOptions =
  mo_from :: string
  mo_to :: one_or_many
  mo_subject :: string
  mo_text :: "string option"
  mo_html :: "string option"
  mo_cc :: "one_or_many option"
  mo_bcc :: "one_or_many option"
  mo_attachments :: "attachment list option"

record SentMessageInfo =
  info_messageId :: string

text \<open>A compiled template: called with the data, it gives the text or throws.\<close>

type_synonym renderer = "TemplateDataType \<Rightarrow> thrown + string"

text \<open>
  A value as the constructor of the dispatcher may meet it in a field of its
  configuration at run time: missing, a string (every variable of the process
  environment is one), or a number.
\<close>

datatype js_input = Undefined | Str string | Number js_number

record tls_input =
  tin_rejectUnauthorized :: "bool option"

record EmailConfigInput =
  cfg_host :: "string option"
  cfg_port :: js_input
  cfg_secure :: bool
  cfg_auth_user :: "string option"
  cfg_auth_pass :: "string option"
  cfg_service :: "string option"
  cfg_tls :: "tls_input option"

text \<open>
  What the code calls outside itself: the e-mail format check and the messages of
  schema errors (validation library), \<open>Number\<close> on a string, \<open>Handlebars.compile\<close>, and
  the transport's \<open>sendMail\<close>, which answers to the options of its transport and of the
  mail.
\<close>

record externals =
  is_email :: "string \<Rightarrow> bool"
  zod_message :: "EmailMessage \<Rightarrow> string"
  zod_config_message :: "EmailConfigInput \<Rightarrow> string"
  string_to_number :: "string \<Rightarrow> js_number"
  hb_compile :: "string \<Rightarrow> thrown + renderer"
  transport_sendMail :: "smtp_options \<Rightarrow> SendMailOptions \<Rightarrow> thrown + SentMessageInfo"

text \<open>\<open>emailMessageSchema.parse\<close>: the message, or a thrown schema error.\<close>

definition emailMessageSchema_parse :: "externals \<Rightarrow> EmailMessage \<Rightarrow> thrown + EmailMessage" where
  "emailMessageSchema_parse ex m =
     (if emailMessage_fields_ok (is_email ex) m \<and> emailMessage_refine m then Inr m
      else Inl (JsError (zod_message ex m)))"

section \<open>The mail dispatcher (class EmailSMTPService, mailer/config.ts)\<close>

text \<open>The calls that leave the dispatcher, in the order they are made.\<close>

datatype external_call =
    HandlebarsCompile string
  | TransportSendMail smtp_options SendMailOptions

text \<open>
  The fields of the object: the options its transporter was created with, the default
  sender and the template cache; \<open>calls\<close> records the outside calls made so far.
\<close>

record EmailSMTPService =
  transporter :: smtp_options
  defaultFrom :: string
  templateCache :: "string \<rightharpoonup> renderer"
  calls :: "external_call list"

record SendResult =
  success :: bool
  messageId :: "string option"
  error :: "string option"

text \<open>
  \<open>compileTemplate(templateHtml, cacheKey?)\<close>: the renderer or the thrown error, and the
  object after the call. The two tests of \<open>cacheKey\<close> are tests of its truth value.
\<close>

definition compileTemplate ::
  "externals \<Rightarrow> EmailSMTPService \<Rightarrow> string \<Rightarrow> string option
     \<Rightarrow> (thrown + renderer) \<times> EmailSMTPService" where
  "compileTemplate ex svc templateHtml cacheKey =
     (case (if truthy cacheKey then templateCache svc (the cacheKey) else None) of
        Some cached \<Rightarrow> (Inr cached, svc)
      | None \<Rightarrow>
          (let svc1 = svc\<lparr>calls := calls svc @ [HandlebarsCompile templateHtml]\<rparr> in
           case hb_compile ex templateHtml of
             Inl e \<Rightarrow>
               (Inl (JsError (''Failed to compile template: '' @ error_message e ''Unknown error'')),
                svc1)
           | Inr compiledTemplate \<Rightarrow>
               (Inr compiledTemplate,
                if truthy cacheKey
                then svc1\<lparr>templateCache := (templateCache svc1)(the cacheKey \<mapsto> compiledTemplate)\<rparr>
                else svc1)))"

text \<open>\<open>renderTemplate(templateHtml, data, cacheKey?)\<close>\<close>

definition renderTemplate ::
  "externals \<Rightarrow> EmailSMTPService \<Rightarrow> string \<Rightarrow> TemplateDataType \<Rightarrow> string option
     \<Rightarrow> (thrown + string) \<times> EmailSMTPService" where
  "renderTemplate ex svc templateHtml tdata cacheKey =
     (case compileTemplate ex svc templateHtml cacheKey of
        (Inl e, svc1) \<Rightarrow>
          (Inl (JsError (''Failed to render template: '' @ error_message e ''Unknown error'')), svc1)
      | (Inr template, svc1) \<Rightarrow>
          (case template tdata of
             Inl e \<Rightarrow>
               (Inl (JsError (''Failed to render template: '' @ error_message e ''Unknown error'')),
                svc1)
           | Inr rendered \<Rightarrow> (Inr rendered, svc1)))"

text \<open>
  \<open>Buffer.from(s).toString("base64")\<close>: three bytes give four characters of the
  alphabet, and a last group of one or two bytes is padded with \<open>=\<close>.
\<close>

definition b64_char :: "nat \<Rightarrow> char" where
  "b64_char n =
     (''ABCDEFGHIJKLMNOPQRSTUVWXYZabcdefghijklmnopqrstuvwxyz0123456789+/'') ! (n mod 64)"

fun base64 :: "string \<Rightarrow> string" where
  "base64 (a # b # c # rest) =
     (let n = of_char a * 65536 + of_char b * 256 + of_char c in
      [b64_char (n div 262144), b64_char (n div 4096), b64_char (n div 64), b64_char n])
     @ base64 rest"
| "base64 [a, b] =
     (let n = of_char a * 65536 + of_char b * 256 in
      [b64_char (n div 262144), b64_char (n div 4096), b64_char (n div 64), CHR ''=''])"
| "base64 [a] =
     (let n = of_char a * 65536 in
      [b64_char (n div 262144), b64_char (n div 4096), CHR ''='', CHR ''=''])"
| "base64 [] = []"

text \<open>The cache key \<open>sendEmail\<close> derives from a template source.\<close>

definition template_cacheKey :: "string \<Rightarrow> string" where
  "template_cacheKey templateHtml = ''template_'' @ take 32 (base64 templateHtml)"

text \<open>The \<open>from\<close> header and the options of the mail (the part of \<open>sendEmail\<close> between
  rendering and sending).\<close>

definition from_header :: "EmailSMTPService \<Rightarrow> EmailMessage \<Rightarrow> string" where
  "from_header svc validMessage =
     (if truthy (msg_name validMessage)
      then the (msg_name validMessage) @ '' <''
           @ (if truthy (msg_from validMessage) then the (msg_from validMessage)
              else defaultFrom svc)
           @ ''>''
      else defaultFrom svc)"

definition mailOptions :: "EmailSMTPService \<Rightarrow> EmailMessage \<Rightarrow> string option \<Rightarrow> SendMailOptions" where
  "mailOptions svc validMessage htmlContent =
     \<lparr>mo_from = from_header svc validMessage,
      mo_to = msg_to validMessage,
      mo_subject = msg_subject validMessage,
      mo_text = msg_text validMessage,
      mo_html = htmlContent,
      mo_cc = msg_cc validMessage,
      mo_bcc = msg_bcc validMessage,
      mo_attachments = msg_attachments validMessage\<rparr>"

text \<open>
  The HTML content of the mail (the first step of \<open>sendEmail\<close> after validation): the
  \<open>html\<close> field, or the rendered template when \<open>templateHtml\<close> is given; the cache key is
  derived only when \<open>templateData\<close> is given.
\<close>

definition htmlContent ::
  "externals \<Rightarrow> EmailSMTPService \<Rightarrow> EmailMessage \<Rightarrow> (thrown + string option) \<times> EmailSMTPService" where
  "htmlContent ex svc validMessage =
     (if truthy (msg_templateHtml validMessage)
      then (let cacheKey =
                  (case msg_templateData validMessage of
                     Some d \<Rightarrow> Some (template_cacheKey (the (msg_templateHtml validMessage)))
                   | None \<Rightarrow> None)
            in case renderTemplate ex svc (the (msg_templateHtml validMessage))
                      (case msg_templateData validMessage of Some d \<Rightarrow> d | None \<Rightarrow> [])
                      cacheKey of
                 (Inl e, svc1) \<Rightarrow> (Inl e, svc1)
               | (Inr rendered, svc1) \<Rightarrow> (Inr (Some rendered), svc1))
      else (Inr (msg_html validMessage), svc))"

text \<open>The \<open>try\<close> block of \<open>sendEmail\<close>: its result, or what it throws.\<close>

definition sendEmail_try ::
  "externals \<Rightarrow> EmailSMTPService \<Rightarrow> EmailMessage \<Rightarrow> (thrown + SendResult) \<times> EmailSMTPService" where
  "sendEmail_try ex svc message =
     (case emailMessageSchema_parse ex message of
        Inl e \<Rightarrow> (Inl e, svc)
      | Inr validMessage \<Rightarrow>
          (case htmlContent ex svc validMessage of
             (Inl e, svc1) \<Rightarrow> (Inl e, svc1)
           | (Inr content, svc1) \<Rightarrow>
               (let opts = mailOptions svc1 validMessage content;
                    svc2 = svc1\<lparr>calls := calls svc1 @ [TransportSendMail (transporter svc1) opts]\<rparr>
                in case transport_sendMail ex (transporter svc1) opts of
                     Inl e \<Rightarrow> (Inl e, svc2)
                   | Inr info \<Rightarrow>
                       (Inr \<lparr>success = True, messageId = Some (info_messageId info), error = None\<rparr>,
                        svc2))))"

text \<open>\<open>sendEmail\<close>: the \<open>catch\<close> block turns whatever was thrown into a result.\<close>

definition sendEmail ::
  "externals \<Rightarrow> EmailSMTPService \<Rightarrow> EmailMessage \<Rightarrow> (thrown + SendResult) \<times> EmailSMTPService" where
  "sendEmail ex svc message =
     (case sendEmail_try ex svc message of
        (Inl e, svc1) \<Rightarrow>
          (Inr \<lparr>success = False, messageId = None,
                error = Some (error_message e ''Unknown error occurred'')\<rparr>, svc1)
      | (Inr r, svc1) \<Rightarrow> (Inr r, svc1))"




section \<open>Construction of the dispatcher (mailer/config.ts, mailer/service.ts)\<close>

text \<open>\<open>z.coerce.number()\<close> applies \<open>Number\<close> to its input.\<close>

definition coerce_number :: "externals \<Rightarrow> js_input \<Rightarrow> js_number" where
  "coerce_number ex v =
     (case v of Undefined \<Rightarrow> NaN | Str s \<Rightarrow> string_to_number ex s | Number n \<Rightarrow> n)"

text \<open>\<open>v === n\<close> for a number \<open>n\<close>: a value that is not a number is never equal to it.\<close>

definition input_strict_eq :: "js_input \<Rightarrow> js_number \<Rightarrow> bool" where
  "input_strict_eq v n = (case v of Undefined \<Rightarrow> False | Str s \<Rightarrow> False | Number k \<Rightarrow> strict_eq k n)"

definition port_in_range :: "js_number \<Rightarrow> bool" where
  "port_in_range n = (case n of Num r \<Rightarrow> 1 \<le> r \<and> r \<le> 65535 | NaN \<Rightarrow> False
                      | PosInfinity \<Rightarrow> False | NegInfinity \<Rightarrow> False)"

text \<open>A required string of at least one character.\<close>

definition required_nonempty :: "string option \<Rightarrow> bool" where
  "required_nonempty v = (case v of None \<Rightarrow> False | Some s \<Rightarrow> 1 \<le> length s)"

text \<open>\<open>emailConfigSchema\<close>\<close>

definition emailConfigSchema_ok :: "externals \<Rightarrow> EmailConfigInput \<Rightarrow> bool" where
  "emailConfigSchema_ok ex config =
     (required_nonempty (cfg_host config)
      \<and> port_in_range (coerce_number ex (cfg_port config))
      \<and> (case cfg_auth_user config of None \<Rightarrow> False | Some u \<Rightarrow> validateEmail (is_email ex) u)
      \<and> required_nonempty (cfg_auth_pass config))"

text \<open>
  \<open>new EmailSMTPService(config)\<close>: the configuration is validated, the transporter is
  created from the validated fields, the default sender is the user of the credentials,
  and the cache is empty.
\<close>

definition new_EmailSMTPService :: "externals \<Rightarrow> EmailConfigInput \<Rightarrow> thrown + EmailSMTPService" where
  "new_EmailSMTPService ex config =
     (if emailConfigSchema_ok ex config
      then Inr \<lparr>transporter =
                  \<lparr>opt_host = the (cfg_host config),
                   opt_port = coerce_number ex (cfg_port config),
                   opt_secure = cfg_secure config,
                   opt_requireTLS = None,
                   opt_auth_user = the (cfg_auth_user config),
                   opt_auth_pass = the (cfg_auth_pass config),
                   opt_service = (if truthy (cfg_service config) then cfg_service config else None),
                   opt_tls = (case cfg_tls config of
                                None \<Rightarrow> None
                              | Some t \<Rightarrow> Some \<lparr>tls_rejectUnauthorized = tin_rejectUnauthorized t,
                                                tls_minVersion = None, tls_ciphers = None\<rparr>),
                   opt_connectionTimeout = None,
                   opt_greetingTimeout = None,
                   opt_socketTimeout = None\<rparr>,
                defaultFrom = the (cfg_auth_user config),
                templateCache = Map.empty,
                calls = []\<rparr>
      else Inl (JsError (zod_config_message ex config)))"

text \<open>The variables of the process environment the mailer reads.\<close>

record ProcessEnv =
  SMTP_HOST :: "string option"
  SMTP_PORT :: "string option"
  SMTP_USER :: "string option"
  SMTP_PASSWORD :: "string option"

definition env_input :: "string option \<Rightarrow> js_input" where
  "env_input v = (case v of None \<Rightarrow> Undefined | Some s \<Rightarrow> Str s)"

text \<open>The configuration object \<open>createEmailService\<close> builds from the environment.\<close>

definition env_config :: "ProcessEnv \<Rightarrow> EmailConfigInput" where
  "env_config penv =
     \<lparr>cfg_host = SMTP_HOST penv,
      cfg_port = env_input (SMTP_PORT penv),
      cfg_secure = input_strict_eq (env_input (SMTP_PORT penv)) (Num 465),
      cfg_auth_user = SMTP_USER penv,
      cfg_auth_pass = SMTP_PASSWORD penv,
      cfg_service = None,
      cfg_tls = None\<rparr>"

definition createEmailService :: "externals \<Rightarrow> ProcessEnv \<Rightarrow> thrown + EmailSMTPService" where
  "createEmailService ex penv = new_EmailSMTPService ex (env_config penv)"

section \<open>Sending by template and configuration name (mailer/service.ts)\<close>

text \<open>The stored rows, with the columns the code reads or the seeder writes.\<close>

record EmailTemplateRow =
  tpl_name :: string
  tpl_subject :: string
  tpl_html :: string

record EmailRow =
  row_emailConfigName :: string
  row_host :: string
  row_port :: js_number
  row_username :: string
  row_password :: string
  row_secure :: bool
  row_fromName :: string
  row_fromEmail :: string

text \<open>
  \<open>EmailService.retrieveOneByConfigName\<close>; \<open>findFirst\<close> is the database query for the
  row with the given configuration name, a parameter.
\<close>

definition retrieveOneByConfigName ::
  "(string \<Rightarrow> thrown + EmailRow option) \<Rightarrow> string
     \<Rightarrow> thrown + EmailRow option ServiceApiResponse" where
  "retrieveOneByConfigName findFirst configName =
     (case findFirst configName of
        Inl e \<Rightarrow> Inl (createErrorResponse e)
      | Inr None \<Rightarrow> Inr (createResponse 404 ''Email not found'' None)
      | Inr (Some d) \<Rightarrow> Inr (createResponse 200 ''Email retrieved successfully'' (Some d)))"

text \<open>
  The argument of \<open>sendEmailWithTemplate\<close>. The template service is its method
  \<open>retrieveEmailTemplate\<close>, the e-mail service is the database query behind
  \<open>retrieveOneByConfigName\<close>.
\<close>

record SendEmailWithTemplate =
  retrieveEmailTemplate :: "string \<Rightarrow> thrown + EmailTemplateRow option ServiceApiResponse"
  email_findFirst :: "string \<Rightarrow> thrown + EmailRow option"
  templateName :: string
  emailConfigName :: string
  swt_to :: string
  swt_templateData :: "TemplateDataType option"
  swt_subject :: "string option"

text \<open>The message \<open>sendEmailWithTemplate\<close> hands to \<open>sendEmail\<close>.\<close>

definition template_message ::
  "SendEmailWithTemplate \<Rightarrow> EmailTemplateRow \<Rightarrow> EmailRow \<Rightarrow> EmailMessage" where
  "template_message config template_data email_data =
     \<lparr>msg_to = One (swt_to config),
      msg_subject = (if truthy (swt_subject config) then the (swt_subject config)
                     else tpl_subject template_data),
      msg_text = None,
      msg_html = None,
      msg_templateHtml = Some (tpl_html template_data),
      msg_templateData = swt_templateData config,
      msg_name = Some (row_fromName email_data),
      msg_from = Some (row_fromEmail email_data),
      msg_cc = None,
      msg_bcc = None,
      msg_attachments = None\<rparr>"

text \<open>
  The \<open>try\<close> block of \<open>sendEmailWithTemplate\<close>: whether it throws, and the outside calls
  of the dispatcher it created.
\<close>

definition sendEmailWithTemplate_try ::
  "externals \<Rightarrow> ProcessEnv \<Rightarrow> SendEmailWithTemplate \<Rightarrow> (thrown + unit) \<times> external_call list" where
  "sendEmailWithTemplate_try ex penv config =
     (case retrieveEmailTemplate config (templateName config) of
        Inl e \<Rightarrow> (Inl e, [])
      | Inr template \<Rightarrow>
          (case resp_data template of
             None \<Rightarrow>
               (Inl (JsError (''Email template '' @ [CHR 0x27] @ templateName config @ [CHR 0x27]
                              @ '' not found or has no data'')), [])
           | Some template_data \<Rightarrow>
               (case retrieveOneByConfigName (email_findFirst config) (emailConfigName config) of
                  Inl e \<Rightarrow> (Inl e, [])
                | Inr emailService \<Rightarrow>
                    (case resp_data emailService of
                       None \<Rightarrow>
                         (Inl (JsError (''Email service configuration '' @ [CHR 0x27]
                                        @ emailConfigName config @ [CHR 0x27]
                                        @ '' not found or has no data'')), [])
                     | Some email_data \<Rightarrow>
                         (case createEmailService ex penv of
                            Inl e \<Rightarrow> (Inl e, [])
                          | Inr emailServiceInstance \<Rightarrow>
                              (case sendEmail ex emailServiceInstance
                                      (template_message config template_data email_data) of
                                 (Inl e, svc1) \<Rightarrow> (Inl e, calls svc1)
                               | (Inr result, svc1) \<Rightarrow>
                                   (if \<not> success result
                                    then (Inl (JsError (if truthy (error result) then the (error result)
                                                        else ''Failed to send email'')),
                                          calls svc1)
                                    else (Inr (), calls svc1))))))))"

text \<open>\<open>sendEmailWithTemplate\<close>: the \<open>catch\<close> block wraps what was thrown and throws again.\<close>

definition sendEmailWithTemplate ::
  "externals \<Rightarrow> ProcessEnv \<Rightarrow> SendEmailWithTemplate \<Rightarrow> (thrown + unit) \<times> external_call list" where
  "sendEmailWithTemplate ex penv config =
     (case sendEmailWithTemplate_try ex penv config of
        (Inl e, cs) \<Rightarrow>
          (Inl (JsError (''Failed to send email with template '' @ [CHR 0x27] @ templateName config
                         @ [CHR 0x27] @ '' to '' @ [CHR 0x27] @ swt_to config @ [CHR 0x27] @ '': ''
                         @ error_message_or_string e)), cs)
      | (Inr u, cs) \<Rightarrow> (Inr u, cs))"

section \<open>Example inputs\<close>

text \<open>
  A stand-in for the outside world: an address is well-formed when it contains \<open>@\<close>,
  every template compiles to a renderer that returns its source text, and the transport
  accepts every mail.
\<close>

definition echo_renderer :: "string \<Rightarrow> renderer" where
  "echo_renderer src = (\<lambda>d. Inr src)"

definition demo_externals :: externals where
  "demo_externals =
     \<lparr>is_email = (\<lambda>s. CHR ''@'' \<in> set s),
      zod_message = (\<lambda>m. ''Invalid input''),
      zod_config_message = (\<lambda>c. ''Invalid configuration''),
      string_to_number = (\<lambda>s. if s = ''465'' then Num 465 else if s = ''587'' then Num 587 else NaN),
      hb_compile = (\<lambda>src. Inr (echo_renderer src)),
      transport_sendMail = (\<lambda>opts mail. Inr \<lparr>info_messageId = ''<1@mail.example.com>''\<rparr>)\<rparr>"

text \<open>The same world with a mail server that refuses the connection.\<close>

definition offline_externals :: externals where
  "offline_externals =
     demo_externals\<lparr>transport_sendMail := (\<lambda>opts mail. Inl (JsError ''connect ECONNREFUSED''))\<rparr>"

definition demo_options :: smtp_options where
  "demo_options =
     \<lparr>opt_host = ''smtp.example.com'', opt_port = Num 587, opt_secure = False,
      opt_requireTLS = None, opt_auth_user = ''noreply@example.com'', opt_auth_pass = ''secret'',
      opt_service = None, opt_tls = None, opt_connectionTimeout = None,
      opt_greetingTimeout = None, opt_socketTimeout = None\<rparr>"

definition demo_service :: EmailSMTPService where
  "demo_service =
     \<lparr>transporter = demo_options, defaultFrom = ''noreply@example.com'',
      templateCache = Map.empty, calls = []\<rparr>"

text \<open>A plain text message, and messages derived from it.\<close>

definition text_message :: EmailMessage where
  "text_message =
     \<lparr>msg_to = One ''bob@example.com'', msg_subject = ''Hello'', msg_text = Some ''Hi Bob'',
      msg_html = None, msg_templateHtml = None, msg_templateData = None, msg_name = None,
      msg_from = None, msg_cc = None, msg_bcc = None, msg_attachments = None\<rparr>"

definition bodyless_message :: EmailMessage where
  "bodyless_message = text_message\<lparr>msg_text := None\<rparr>"

definition empty_text_message :: EmailMessage where
  "empty_text_message = text_message\<lparr>msg_text := Some []\<rparr>"

definition fractional_port_update :: EmailUpdate where
  "fractional_port_update =
     \<lparr>upd_host = ''smtp.example.com'', upd_port = Num (931 / 2), upd_secure = False,
      upd_username = ''noreply@example.com'', upd_password = ''secret'',
      upd_fromName = ''Example'', upd_fromEmail = ''noreply@example.com''\<rparr>"

definition from_only_message :: EmailMessage where
  "from_only_message = text_message\<lparr>msg_from := Some ''alice@example.com''\<rparr>"

definition empty_name_message :: EmailMessage where
  "empty_name_message =
     text_message\<lparr>msg_name := Some [], msg_from := Some ''alice@example.com''\<rparr>"

definition named_message :: EmailMessage where
  "named_message =
     text_message\<lparr>msg_name := Some ''Alice'', msg_from := Some ''alice@example.com''\<rparr>"

text \<open>An environment from which \<open>createEmailService\<close> builds \<open>demo_service\<close>.\<close>

definition demo_env :: ProcessEnv where
  "demo_env =
     \<lparr>SMTP_HOST = Some ''smtp.example.com'', SMTP_PORT = Some ''587'',
      SMTP_USER = Some ''noreply@example.com'', SMTP_PASSWORD = Some ''secret''\<rparr>"

text \<open>Two templates that agree on their first 24 bytes, and messages that use them.\<close>

definition welcome_template :: string where
  "welcome_template = ''<!DOCTYPE html><html><body>Welcome {{name}}</body></html>''"

definition code_template :: string where
  "code_template = ''<!DOCTYPE html><html><body>Your code is {{code}}</body></html>''"

definition welcome_message :: EmailMessage where
  "welcome_message =
     text_message\<lparr>msg_text := None, msg_templateHtml := Some welcome_template,
                   msg_templateData := Some [(''name'', JString ''Bob'')]\<rparr>"

definition code_message :: EmailMessage where
  "code_message =
     text_message\<lparr>msg_text := None, msg_templateHtml := Some code_template,
                   msg_templateData := Some [(''code'', JString ''1234'')]\<rparr>"

definition cached_service :: EmailSMTPService where
  "cached_service =
     demo_service\<lparr>templateCache := [''k1'' \<mapsto> echo_renderer welcome_template]\<rparr>"

definition plain_welcome_message :: EmailMessage where
  "plain_welcome_message = welcome_message\<lparr>msg_templateData := None\<rparr>"


text \<open>
  Stored templates and configurations, and requests to send by name. The stored
  configuration names another mail server than the environment does.
\<close>

definition welcome_row :: EmailTemplateRow where
  "welcome_row = \<lparr>tpl_name = ''welcome'', tpl_subject = ''Welcome'', tpl_html = welcome_template\<rparr>"

definition blank_row :: EmailTemplateRow where
  "blank_row = \<lparr>tpl_name = ''blank'', tpl_subject = ''Blank'', tpl_html = []\<rparr>"

definition demo_templates :: "string \<Rightarrow> thrown + EmailTemplateRow option ServiceApiResponse" where
  "demo_templates name =
     (if name = ''welcome''
      then Inr (createResponse 200 ''Email template retrieved successfully''
                  (Some welcome_row))
      else if name = ''blank''
      then Inr (createResponse 200 ''Email template retrieved successfully''
                  (Some blank_row))
      else Inr (createResponse 404 ''Email template not found'' None))"

definition support_row :: EmailRow where
  "support_row =
     \<lparr>row_emailConfigName = ''support'', row_host = ''mail.support.example'',
      row_port = Num 465, row_username = ''support@support.example'',
      row_password = ''other-secret'', row_secure = True, row_fromName = ''Support'',
      row_fromEmail = ''support@support.example''\<rparr>"

definition demo_email_rows :: "string \<Rightarrow> thrown + EmailRow option" where
  "demo_email_rows name = (if name = ''support'' then Inr (Some support_row) else Inr None)"

definition welcome_request :: SendEmailWithTemplate where
  "welcome_request =
     \<lparr>retrieveEmailTemplate = demo_templates, email_findFirst = demo_email_rows,
      templateName = ''welcome'', emailConfigName = ''support'', swt_to = ''bob@example.com'',
      swt_templateData = None, swt_subject = None\<rparr>"

definition unknown_template_request :: SendEmailWithTemplate where
  "unknown_template_request = welcome_request\<lparr>templateName := ''missing''\<rparr>"

definition blank_template_request :: SendEmailWithTemplate where
  "blank_template_request = welcome_request\<lparr>templateName := ''blank''\<rparr>"

definition unknown_config_request :: SendEmailWithTemplate where
  "unknown_config_request = welcome_request\<lparr>emailConfigName := ''nowhere''\<rparr>"

text \<open>
  An arithmetic for the examples: exact on rationals. It agrees with the rounded
  operators on the values the examples use (\<open>10 / 4\<close> is \<open>2.5\<close>, \<open>10 % 4\<close> is \<open>2\<close>, and
  \<open>String(0)\<close> is \<open>0\<close>); a number it does not print is shown as \<open>?\<close>.
\<close>

definition trunc_rat :: "rat \<Rightarrow> rat" where
  "trunc_rat q = (if 0 \<le> q then of_int \<lfloor>q\<rfloor> else of_int \<lceil>q\<rceil>)"

definition exact :: "(rat \<Rightarrow> rat \<Rightarrow> rat) \<Rightarrow> js_number \<Rightarrow> js_number \<Rightarrow> js_number" where
  "exact f a b = (case a of Num x \<Rightarrow> (case b of Num y \<Rightarrow> Num (f x y) | _ \<Rightarrow> NaN) | _ \<Rightarrow> NaN)"

definition demo_operators :: js_operators where
  "demo_operators =
     \<lparr>op_add = exact (\<lambda>x y. x + y),
      op_sub = exact (\<lambda>x y. x - y),
      op_mul = exact (\<lambda>x y. x * y),
      op_div = exact (\<lambda>x y. x / y),
      op_rem = exact (\<lambda>x y. x - y * trunc_rat (x / y)),
      op_to_string = (\<lambda>n. if n = Num 0 then ''0'' else if n = Num 2 then ''2''
                          else if n = Num (5 / 2) then ''2.5'' else ''?'')\<rparr>"

section \<open>Unfolding\<close>

lemmas send_defs = sendEmail_def sendEmail_try_def htmlContent_def renderTemplate_def
  compileTemplate_def emailMessageSchema_parse_def emailMessage_fields_ok_def
  emailMessage_refine_def validateEmail_def optional_def truthy_def mailOptions_def
  from_header_def error_message_def template_cacheKey_def Let_def

lemmas demo_defs = demo_externals_def offline_externals_def demo_service_def demo_options_def
  text_message_def bodyless_message_def echo_renderer_def

lemmas parse_defs = emailMessageSchema_parse_def emailMessage_fields_ok_def
  emailMessage_refine_def validateEmail_def optional_def truthy_def

lemmas construct_defs = createEmailService_def new_EmailSMTPService_def emailConfigSchema_ok_def
  env_config_def env_input_def input_strict_eq_def coerce_number_def port_in_range_def
  required_nonempty_def validateEmail_def truthy_def

lemmas request_defs = welcome_request_def demo_templates_def demo_email_rows_def
  welcome_row_def blank_row_def createResponse_def

section \<open>The arithmetic helpers\<close>

text \<open>
  C8. For all numbers \<open>a\<close> and \<open>b\<close>, the \<open>divide\<close> helper returns \<open>a / b\<close> when \<open>b\<close> is not
  zero and \<open>0\<close> when it is, and the \<open>modulo\<close> helper returns \<open>a % b\<close> when \<open>b\<close> is not zero
  and \<open>0\<close> when it is, whatever the operators \<open>/\<close> and \<open>%\<close> return; in particular
  rendering \<open>{{divide a b}}\<close> with \<open>a = 10\<close> and \<open>b = 0\<close> calls the registered helper and
  prints the number \<open>0\<close>, and the operator \<open>/\<close> is not applied.
\<close>

theorem divide_modulo_helpers:
  "divide_helper ops a b = (if b = Num 0 then Num 0 else op_div ops a b)
   \<and> modulo_helper ops a b = (if b = Num 0 then Num 0 else op_rem ops a b)
   \<and> math_helpers ops ''divide'' = Some (divide_helper ops)
   \<and> math_helpers ops ''modulo'' = Some (modulo_helper ops)
   \<and> render_helper_call ops ''divide'' ''a'' ''b''
         [(''a'', JNumber (Num 10)), (''b'', JNumber (Num 0))]
       = Some (op_to_string ops (Num 0))
   \<and> render_helper_call ops ''modulo'' ''a'' ''b''
         [(''a'', JNumber (Num 10)), (''b'', JNumber (Num 0))]
       = Some (op_to_string ops (Num 0))"
  by (simp add: divide_helper_def modulo_helper_def strict_neq_def math_helpers_def
      render_helper_call_def)

theorem divide_modulo_helpers_witness:
  "divide_helper demo_operators (Num 10) (Num 4) = Num (5 / 2)
   \<and> modulo_helper demo_operators (Num 10) (Num 4) = Num 2
   \<and> divide_helper demo_operators (Num 10) (Num 0) = Num 0
   \<and> render_helper_call demo_operators ''divide'' ''a'' ''b''
         [(''a'', JNumber (Num 10)), (''b'', JNumber (Num 0))] = Some ''0''"
proof -
  have f: "trunc_rat (10 / 4) = 2"
    by code_simp
  show ?thesis
    using divide_modulo_helpers [of demo_operators "Num 10" "Num 4"]
      divide_modulo_helpers [of demo_operators "Num 10" "Num 0"] f
    by (simp add: demo_operators_def exact_def)
qed

section \<open>The SMTP connection check\<close>

text \<open>
  C4 fails where it says that the port is coerced to an integer: \<open>Number\<close> keeps a
  numeric port as it is, so the port \<open>465.5\<close> reaches the transport unrounded.
\<close>

theorem smtp_connection_port_counterexample:
  "opt_port (smtp_connection_options fractional_port_update) = Num (931 / 2)
   \<and> \<not> is_integer (opt_port (smtp_connection_options fractional_port_update))"
proof -
  have f: "\<not> is_integer (Num (931 / 2))"
    by code_simp
  show ?thesis
    using f
    by (simp add: smtp_connection_options_def js_Number_def fractional_port_update_def
        strict_eq_def strict_neq_def Let_def)
qed

text \<open>
  C4, amended. For every input of the connection check, the port handed to the transient
  transport is the caller's port as \<open>Number\<close> returns it (unchanged), and the effective
  settings are: port 465 gives \<open>secure = true\<close> whatever the caller's \<open>secure\<close> field is
  (\<open>requireTLS\<close> stays false); port 587 or 25 gives \<open>secure = false\<close> and
  \<open>requireTLS = true\<close> whatever the caller's \<open>secure\<close> field is; every other port leaves
  the caller's \<open>secure\<close> unchanged with \<open>requireTLS = false\<close>.
\<close>

theorem smtp_connection_tls_settings:
  "opt_port (smtp_connection_options c) = upd_port c
   \<and> (upd_port c = Num 465 \<longrightarrow>
        opt_secure (smtp_connection_options c) = True
        \<and> opt_requireTLS (smtp_connection_options c) = Some False)
   \<and> (upd_port c = Num 587 \<or> upd_port c = Num 25 \<longrightarrow>
        opt_secure (smtp_connection_options c) = False
        \<and> opt_requireTLS (smtp_connection_options c) = Some True)
   \<and> (upd_port c \<noteq> Num 465 \<and> upd_port c \<noteq> Num 587 \<and> upd_port c \<noteq> Num 25 \<longrightarrow>
        opt_secure (smtp_connection_options c) = upd_secure c
        \<and> opt_requireTLS (smtp_connection_options c) = Some False)"
  by (auto simp add: smtp_connection_options_def js_Number_def strict_eq_def strict_neq_def Let_def)

theorem smtp_connection_tls_settings_witness:
  "opt_secure (smtp_connection_options (fractional_port_update\<lparr>upd_port := Num 465\<rparr>)) = True
   \<and> opt_requireTLS (smtp_connection_options (fractional_port_update\<lparr>upd_port := Num 465\<rparr>))
       = Some False
   \<and> opt_secure (smtp_connection_options
         (fractional_port_update\<lparr>upd_port := Num 587, upd_secure := True\<rparr>)) = False
   \<and> opt_requireTLS (smtp_connection_options
         (fractional_port_update\<lparr>upd_port := Num 587, upd_secure := True\<rparr>)) = Some True
   \<and> opt_secure (smtp_connection_options
         (fractional_port_update\<lparr>upd_port := Num 2525, upd_secure := True\<rparr>)) = True
   \<and> opt_requireTLS (smtp_connection_options
         (fractional_port_update\<lparr>upd_port := Num 2525, upd_secure := True\<rparr>)) = Some False"
  using smtp_connection_tls_settings [of "fractional_port_update\<lparr>upd_port := Num 465\<rparr>"]
    smtp_connection_tls_settings
      [of "fractional_port_update\<lparr>upd_port := Num 587, upd_secure := True\<rparr>"]
    smtp_connection_tls_settings
      [of "fractional_port_update\<lparr>upd_port := Num 2525, upd_secure := True\<rparr>"]
  by (simp add: fractional_port_update_def)

section \<open>Sending one message\<close>

lemma sendEmail_try_success:
  "sendEmail_try ex svc m = (Inr r, s) \<Longrightarrow>
     \<exists>vm h svc1 info. emailMessageSchema_parse ex m = Inr vm \<and> htmlContent ex svc vm = (Inr h, svc1)
        \<and> transport_sendMail ex (transporter svc1) (mailOptions svc1 vm h) = Inr info
        \<and> r = \<lparr>success = True, messageId = Some (info_messageId info), error = None\<rparr>"
  by (auto simp add: sendEmail_try_def Let_def split: sum.splits prod.splits)

text \<open>
  C1. For every message, \<open>sendEmail\<close> does not throw: it returns a result, which either
  has \<open>success = true\<close> with a message id and no error, or \<open>success = false\<close> with an error
  text and no message id; and it has \<open>success = true\<close> exactly when validation, rendering
  and the transport all succeeded, the message id being the transport's.
\<close>

theorem sendEmail_never_throws:
  "\<exists>r. fst (sendEmail ex svc m) = Inr r
     \<and> ((success r \<and> (\<exists>i. messageId r = Some i) \<and> error r = None)
        \<or> (\<not> success r \<and> messageId r = None \<and> (\<exists>e. error r = Some e)))
     \<and> (success r \<longleftrightarrow>
          (\<exists>vm h svc1 info. emailMessageSchema_parse ex m = Inr vm
             \<and> htmlContent ex svc vm = (Inr h, svc1)
             \<and> transport_sendMail ex (transporter svc1) (mailOptions svc1 vm h) = Inr info
             \<and> messageId r = Some (info_messageId info)))"
proof (cases "sendEmail_try ex svc m")
  case (Pair p s)
  show ?thesis
  proof (cases p)
    case (Inl e)
    have nosucc: "\<not> (\<exists>vm h svc1 info. emailMessageSchema_parse ex m = Inr vm
             \<and> htmlContent ex svc vm = (Inr h, svc1)
             \<and> transport_sendMail ex (transporter svc1) (mailOptions svc1 vm h) = Inr info)"
      using Pair Inl by (auto simp add: sendEmail_try_def Let_def split: sum.splits prod.splits)
    have "fst (sendEmail ex svc m) =
            Inr \<lparr>success = False, messageId = None,
                 error = Some (error_message e ''Unknown error occurred'')\<rparr>"
      using Pair Inl by (simp add: sendEmail_def)
    then show ?thesis using nosucc by auto
  next
    case (Inr r)
    from sendEmail_try_success [of ex svc m r s] Pair Inr
    obtain vm h svc1 info where *: "emailMessageSchema_parse ex m = Inr vm"
        "htmlContent ex svc vm = (Inr h, svc1)"
        "transport_sendMail ex (transporter svc1) (mailOptions svc1 vm h) = Inr info"
        "r = \<lparr>success = True, messageId = Some (info_messageId info), error = None\<rparr>"
      by auto
    have "fst (sendEmail ex svc m) = Inr r"
      using Pair Inr by (simp add: sendEmail_def)
    then show ?thesis using * by auto
  qed
qed

theorem sendEmail_never_throws_witness:
  "fst (sendEmail demo_externals demo_service text_message) =
     Inr \<lparr>success = True, messageId = Some ''<1@mail.example.com>'', error = None\<rparr>
   \<and> fst (sendEmail offline_externals demo_service text_message) =
     Inr \<lparr>success = False, messageId = None, error = Some ''connect ECONNREFUSED''\<rparr>
   \<and> fst (sendEmail demo_externals demo_service bodyless_message) =
     Inr \<lparr>success = False, messageId = None, error = Some ''Invalid input''\<rparr>"
  using sendEmail_never_throws [of demo_externals demo_service text_message]
    sendEmail_never_throws [of offline_externals demo_service text_message]
    sendEmail_never_throws [of demo_externals demo_service bodyless_message]
  by (simp add: send_defs demo_defs)

section \<open>The body invariant of a message\<close>

text \<open>
  C3 fails in its converse: a message that supplies \<open>text\<close> as the empty string (and no
  \<open>html\<close> or \<open>templateHtml\<close>) passes the checks of the fields, fails the invariant
  and is answered with \<open>success = false\<close>.
\<close>

theorem empty_text_counterexample:
  "msg_text empty_text_message = Some []
   \<and> emailMessage_fields_ok (is_email demo_externals) empty_text_message
   \<and> \<not> emailMessage_refine empty_text_message
   \<and> sendEmail demo_externals demo_service empty_text_message =
       (Inr \<lparr>success = False, messageId = None, error = Some ''Invalid input''\<rparr>, demo_service)"
  by (simp add: send_defs demo_defs empty_text_message_def)

text \<open>
  C3, amended. A message in which none of \<open>text\<close>, \<open>html\<close> and \<open>templateHtml\<close> is present
  (or each one present is the empty string) fails the invariant; \<open>sendEmail\<close> then returns
  \<open>success = false\<close> with the schema error and leaves the dispatcher as it was, so no
  template is compiled and no network send is attempted. Conversely the invariant holds
  exactly when at least one of the three is a non-empty string.
\<close>

theorem missing_body_fails_validation:
  "(\<not> emailMessage_refine m \<longrightarrow>
      sendEmail ex svc m =
        (Inr \<lparr>success = False, messageId = None, error = Some (zod_message ex m)\<rparr>, svc)
      \<and> calls (snd (sendEmail ex svc m)) = calls svc)
   \<and> (msg_text m = None \<and> msg_html m = None \<and> msg_templateHtml m = None \<longrightarrow>
        \<not> emailMessage_refine m)
   \<and> (emailMessage_refine m \<longleftrightarrow>
        (\<exists>s. s \<noteq> [] \<and> (msg_text m = Some s \<or> msg_html m = Some s \<or> msg_templateHtml m = Some s)))"
  by (auto simp add: sendEmail_def sendEmail_try_def emailMessageSchema_parse_def
      emailMessage_refine_def truthy_def error_message_def split: option.splits)

theorem missing_body_fails_validation_witness:
  "sendEmail demo_externals demo_service bodyless_message =
     (Inr \<lparr>success = False, messageId = None, error = Some ''Invalid input''\<rparr>, demo_service)
   \<and> calls (snd (sendEmail demo_externals demo_service bodyless_message)) = []
   \<and> emailMessage_refine text_message"
  using missing_body_fails_validation [of bodyless_message demo_externals demo_service]
    missing_body_fails_validation [of text_message demo_externals demo_service]
  by (simp add: demo_defs)

section \<open>The from header\<close>

lemma compileTemplate_keeps:
  "compileTemplate ex svc src key = (p, svc1) \<Longrightarrow>
     transporter svc1 = transporter svc \<and> defaultFrom svc1 = defaultFrom svc"
  by (auto simp add: compileTemplate_def Let_def split: option.splits sum.splits if_splits)

lemma renderTemplate_keeps:
  "renderTemplate ex svc src d key = (p, svc1) \<Longrightarrow>
     transporter svc1 = transporter svc \<and> defaultFrom svc1 = defaultFrom svc"
  by (auto simp add: renderTemplate_def split: prod.splits sum.splits dest: compileTemplate_keeps)

lemma htmlContent_keeps:
  "htmlContent ex svc vm = (p, svc1) \<Longrightarrow>
     transporter svc1 = transporter svc \<and> defaultFrom svc1 = defaultFrom svc"
  by (auto simp add: htmlContent_def Let_def split: prod.splits sum.splits if_splits
      dest: renderTemplate_keeps)

text \<open>
  C9 fails where the name is present but empty: the header is then the default sender,
  not a header built from the name and the explicit \<open>from\<close> address.
\<close>

theorem empty_name_counterexample:
  "msg_name empty_name_message = Some []
   \<and> msg_from empty_name_message = Some ''alice@example.com''
   \<and> calls (snd (sendEmail demo_externals demo_service empty_name_message)) =
     [TransportSendMail demo_options
        \<lparr>mo_from = ''noreply@example.com'', mo_to = One ''bob@example.com'', mo_subject = ''Hello'',
         mo_text = Some ''Hi Bob'', mo_html = None, mo_cc = None, mo_bcc = None,
         mo_attachments = None\<rparr>]"
  by (simp add: send_defs demo_defs empty_name_message_def)

text \<open>
  C9, amended. Whenever the name of the message is absent or the empty string, the
  \<open>from\<close> header of the mail handed to the transport is the default sender of the
  dispatcher, even if the message has an explicit \<open>from\<close> address; the address of the
  message enters the header only when the name is a non-empty string, and the header is
  then the name followed by the address (or the default sender) in angle brackets. The
  default sender of a constructed dispatcher is the user of its credentials.
\<close>

theorem from_header_resolution:
  "from_header svc vm =
     (case msg_name vm of
        None \<Rightarrow> defaultFrom svc
      | Some n \<Rightarrow>
          if n = [] then defaultFrom svc
          else n @ '' <''
               @ (case msg_from vm of
                    None \<Rightarrow> defaultFrom svc
                  | Some f \<Rightarrow> if f = [] then defaultFrom svc else f)
               @ ''>'')
   \<and> (emailMessageSchema_parse ex m = Inr vm \<and> htmlContent ex svc vm = (Inr h, svc1) \<longrightarrow>
        calls (snd (sendEmail ex svc m))
          = calls svc1 @ [TransportSendMail (transporter svc) (mailOptions svc1 vm h)]
        \<and> mo_from (mailOptions svc1 vm h) = from_header svc vm)
   \<and> (new_EmailSMTPService ex config = Inr svc0 \<longrightarrow>
        defaultFrom svc0 = opt_auth_user (transporter svc0))"
proof -
  have a: "from_header svc vm =
     (case msg_name vm of
        None \<Rightarrow> defaultFrom svc
      | Some n \<Rightarrow>
          if n = [] then defaultFrom svc
          else n @ '' <''
               @ (case msg_from vm of
                    None \<Rightarrow> defaultFrom svc
                  | Some f \<Rightarrow> if f = [] then defaultFrom svc else f)
               @ ''>'')"
    by (simp add: from_header_def truthy_def split: option.splits)
  have b: "calls (snd (sendEmail ex svc m))
          = calls svc1 @ [TransportSendMail (transporter svc) (mailOptions svc1 vm h)]
        \<and> mo_from (mailOptions svc1 vm h) = from_header svc vm"
    if p: "emailMessageSchema_parse ex m = Inr vm" and c: "htmlContent ex svc vm = (Inr h, svc1)"
  proof -
    from htmlContent_keeps [OF c]
    have k: "transporter svc1 = transporter svc" "defaultFrom svc1 = defaultFrom svc"
      by simp_all
    have "mo_from (mailOptions svc1 vm h) = from_header svc vm"
      using k by (simp add: mailOptions_def from_header_def)
    moreover have "calls (snd (sendEmail ex svc m))
          = calls svc1 @ [TransportSendMail (transporter svc) (mailOptions svc1 vm h)]"
      using p c k by (simp add: sendEmail_def sendEmail_try_def Let_def split: sum.splits)
    ultimately show ?thesis by simp
  qed
  have c: "defaultFrom svc0 = opt_auth_user (transporter svc0)"
    if "new_EmailSMTPService ex config = Inr svc0"
    using that by (auto simp add: new_EmailSMTPService_def split: if_splits)
  from a b c show ?thesis by blast
qed

theorem from_header_resolution_witness:
  "calls (snd (sendEmail demo_externals demo_service from_only_message)) =
     [TransportSendMail demo_options
        \<lparr>mo_from = ''noreply@example.com'', mo_to = One ''bob@example.com'', mo_subject = ''Hello'',
         mo_text = Some ''Hi Bob'', mo_html = None, mo_cc = None, mo_bcc = None,
         mo_attachments = None\<rparr>]
   \<and> from_header demo_service named_message = ''Alice <alice@example.com>''
   \<and> from_header demo_service from_only_message = ''noreply@example.com''
   \<and> new_EmailSMTPService demo_externals (env_config demo_env) = Inr demo_service
   \<and> defaultFrom demo_service = opt_auth_user (transporter demo_service)"
  using from_header_resolution [where svc = demo_service and vm = from_only_message
      and ex = demo_externals and m = from_only_message and h = None and ?svc1.0 = demo_service
      and config = "env_config demo_env" and ?svc0.0 = demo_service]
    from_header_resolution [where svc = demo_service and vm = named_message]
  by (simp add: send_defs demo_defs from_only_message_def named_message_def demo_env_def
      new_EmailSMTPService_def emailConfigSchema_ok_def
      env_config_def env_input_def input_strict_eq_def coerce_number_def port_in_range_def
      required_nonempty_def)

section \<open>The template cache\<close>

lemma compileTemplate_hit:
  "k \<noteq> [] \<Longrightarrow> templateCache svc k = Some r \<Longrightarrow>
     compileTemplate ex svc src (Some k) = (Inr r, svc)"
  by (simp add: compileTemplate_def truthy_def)

lemma compileTemplate_miss:
  "k \<noteq> [] \<Longrightarrow> templateCache svc k = None \<Longrightarrow> hb_compile ex src = Inr r \<Longrightarrow>
     compileTemplate ex svc src (Some k) =
       (Inr r, svc\<lparr>calls := calls svc @ [HandlebarsCompile src],
                   templateCache := (templateCache svc)(k \<mapsto> r)\<rparr>)"
  by (simp add: compileTemplate_def truthy_def Let_def)

lemma compileTemplate_no_key:
  "\<not> truthy key \<Longrightarrow>
     templateCache (snd (compileTemplate ex svc src key)) = templateCache svc
     \<and> calls (snd (compileTemplate ex svc src key)) = calls svc @ [HandlebarsCompile src]
     \<and> fst (compileTemplate ex svc src key) =
         (case hb_compile ex src of
            Inl e \<Rightarrow> Inl (JsError (''Failed to compile template: '' @ error_message e ''Unknown error''))
          | Inr r \<Rightarrow> Inr r)"
  by (simp add: compileTemplate_def Let_def split: sum.splits)

lemma passed_key_nonempty: "template_cacheKey src \<noteq> []"
  by (simp add: template_cacheKey_def)

text \<open>
  C6. For every template source and every cache key the dispatcher can be given (a key
  is a non-empty string; the key \<open>sendEmail\<close> derives starts with \<open>template_\<close>): a call
  with a key present in the cache returns the stored renderer and leaves the dispatcher
  as it was, so nothing is compiled; a call with a key absent from the cache compiles,
  stores the renderer under the key and returns it, so that the same call made again
  returns that same renderer from the cache; and a call with no cache key compiles on
  every call and never changes the cache.
\<close>

theorem compileTemplate_cache:
  "(k \<noteq> [] \<and> templateCache svc k = Some r \<longrightarrow>
      compileTemplate ex svc src (Some k) = (Inr r, svc))
   \<and> (k \<noteq> [] \<and> templateCache svc k = None \<and> hb_compile ex src = Inr r \<longrightarrow>
        compileTemplate ex svc src (Some k) =
          (Inr r, svc\<lparr>calls := calls svc @ [HandlebarsCompile src],
                      templateCache := (templateCache svc)(k \<mapsto> r)\<rparr>)
        \<and> compileTemplate ex (snd (compileTemplate ex svc src (Some k))) src (Some k) =
            (Inr r, snd (compileTemplate ex svc src (Some k))))
   \<and> templateCache (snd (compileTemplate ex svc src None)) = templateCache svc
   \<and> calls (snd (compileTemplate ex svc src None)) = calls svc @ [HandlebarsCompile src]
   \<and> fst (compileTemplate ex svc src None) =
       (case hb_compile ex src of
          Inl e \<Rightarrow> Inl (JsError (''Failed to compile template: ''
                                 @ error_message e ''Unknown error''))
        | Inr r \<Rightarrow> Inr r)
   \<and> template_cacheKey src \<noteq> []"
proof -
  have a: "k \<noteq> [] \<and> templateCache svc k = Some r \<longrightarrow>
      compileTemplate ex svc src (Some k) = (Inr r, svc)"
    by (simp add: compileTemplate_hit)
  have b: "k \<noteq> [] \<and> templateCache svc k = None \<and> hb_compile ex src = Inr r \<longrightarrow>
        compileTemplate ex svc src (Some k) =
          (Inr r, svc\<lparr>calls := calls svc @ [HandlebarsCompile src],
                      templateCache := (templateCache svc)(k \<mapsto> r)\<rparr>)
        \<and> compileTemplate ex (snd (compileTemplate ex svc src (Some k))) src (Some k) =
            (Inr r, snd (compileTemplate ex svc src (Some k)))"
  proof (intro impI)
    assume h: "k \<noteq> [] \<and> templateCache svc k = None \<and> hb_compile ex src = Inr r"
    then have 1: "compileTemplate ex svc src (Some k) =
          (Inr r, svc\<lparr>calls := calls svc @ [HandlebarsCompile src],
                      templateCache := (templateCache svc)(k \<mapsto> r)\<rparr>)"
      by (simp add: compileTemplate_miss)
    have "compileTemplate ex (svc\<lparr>calls := calls svc @ [HandlebarsCompile src],
                      templateCache := (templateCache svc)(k \<mapsto> r)\<rparr>) src (Some k) =
            (Inr r, svc\<lparr>calls := calls svc @ [HandlebarsCompile src],
                      templateCache := (templateCache svc)(k \<mapsto> r)\<rparr>)"
      using h by (intro compileTemplate_hit) simp_all
    then have 2: "compileTemplate ex (snd (compileTemplate ex svc src (Some k))) src (Some k) =
            (Inr r, snd (compileTemplate ex svc src (Some k)))"
      by (simp only: 1 snd_conv)
    from 1 2 show "compileTemplate ex svc src (Some k) =
          (Inr r, svc\<lparr>calls := calls svc @ [HandlebarsCompile src],
                      templateCache := (templateCache svc)(k \<mapsto> r)\<rparr>)
        \<and> compileTemplate ex (snd (compileTemplate ex svc src (Some k))) src (Some k) =
            (Inr r, snd (compileTemplate ex svc src (Some k)))"
      by (rule conjI)
  qed
  have n: "\<not> truthy None" by (simp add: truthy_def)
  note c = compileTemplate_no_key [OF n, of ex svc src]
  from a b c passed_key_nonempty [of src] show ?thesis
    by (simp only: simp_thms)
qed

theorem compileTemplate_cache_witness:
  "compileTemplate demo_externals cached_service code_template (Some ''k1'') =
     (Inr (echo_renderer welcome_template), cached_service)
   \<and> templateCache (snd (compileTemplate demo_externals demo_service welcome_template (Some ''k1'')))
        ''k1'' = Some (echo_renderer welcome_template)
   \<and> calls (snd (compileTemplate demo_externals demo_service welcome_template (Some ''k1'')))
       = [HandlebarsCompile welcome_template]
   \<and> compileTemplate demo_externals
        (snd (compileTemplate demo_externals demo_service welcome_template (Some ''k1'')))
        welcome_template (Some ''k1'')
       = (Inr (echo_renderer welcome_template),
          snd (compileTemplate demo_externals demo_service welcome_template (Some ''k1'')))
   \<and> templateCache (snd (compileTemplate demo_externals demo_service welcome_template None)) ''k1''
       = None
   \<and> calls (snd (compileTemplate demo_externals demo_service welcome_template None))
       = [HandlebarsCompile welcome_template]"
proof -
  note hit = compileTemplate_cache [where k = "''k1''" and svc = cached_service
      and r = "echo_renderer welcome_template" and ex = demo_externals and src = code_template]
  note miss = compileTemplate_cache [where k = "''k1''" and svc = demo_service
      and r = "echo_renderer welcome_template" and ex = demo_externals and src = welcome_template]
  have h1: "''k1'' \<noteq> [] \<and> templateCache cached_service ''k1''
              = Some (echo_renderer welcome_template)"
    by (simp add: cached_service_def)
  have h2: "''k1'' \<noteq> [] \<and> templateCache demo_service ''k1'' = None
            \<and> hb_compile demo_externals welcome_template
                = Inr (echo_renderer welcome_template)"
    by (simp add: demo_service_def demo_externals_def)
  note a = hit [THEN conjunct1, THEN mp, OF h1]
  note b = miss [THEN conjunct2, THEN conjunct1, THEN mp, OF h2]
  note b1 = b [THEN conjunct1]
  note b2 = b [THEN conjunct2]
  note c = miss [THEN conjunct2, THEN conjunct2]
  note c1 = c [THEN conjunct1]
  note c2 = c [THEN conjunct2, THEN conjunct1]
  have p2: "templateCache (snd (compileTemplate demo_externals demo_service welcome_template
              (Some ''k1''))) ''k1'' = Some (echo_renderer welcome_template)"
    by (simp add: b1)
  have p3: "calls (snd (compileTemplate demo_externals demo_service welcome_template
              (Some ''k1''))) = [HandlebarsCompile welcome_template]"
    unfolding b1 by (simp add: demo_service_def)
  have p5: "templateCache (snd (compileTemplate demo_externals demo_service welcome_template
              None)) ''k1'' = None"
    unfolding c1 by (simp add: demo_service_def)
  have p6: "calls (snd (compileTemplate demo_externals demo_service welcome_template None))
              = [HandlebarsCompile welcome_template]"
    unfolding c2 by (simp add: demo_service_def)
  show ?thesis
    by (rule conjI [OF a conjI [OF p2 conjI [OF p3 conjI [OF b2 conjI [OF p5 p6]]]]])
qed

section \<open>The cache key of a templated send\<close>


lemma base64_take:
  "3 * n \<le> length s \<Longrightarrow> take (4 * n) (base64 s) = base64 (take (3 * n) s)"
proof (induction n arbitrary: s)
  case 0
  then show ?case by simp
next
  case (Suc n)
  then obtain a b c rest where s: "s = a # b # c # rest"
    by (cases s rule: base64.cases) auto
  with Suc.prems have "3 * n \<le> length rest" by simp
  from Suc.IH [OF this] have ih: "take (4 * n) (base64 rest) = base64 (take (3 * n) rest)" .
  have e4: "4 * Suc n = Suc (Suc (Suc (Suc (4 * n))))" by simp
  have e3: "3 * Suc n = Suc (Suc (Suc (3 * n)))" by simp
  show ?case
    unfolding s e4 e3 by (simp add: Let_def ih)
qed

lemma base64_prefix:
  assumes "take 24 s = take 24 t"
  shows "take 32 (base64 s) = take 32 (base64 t)"
proof (cases "24 \<le> length s")
  case True
  from assms have "length (take 24 s) = length (take 24 t)" by simp
  with True have t: "24 \<le> length t" by simp
  have "take (4 * 8) (base64 s) = base64 (take (3 * 8) s)"
    using True by (intro base64_take) simp
  moreover have "take (4 * 8) (base64 t) = base64 (take (3 * 8) t)"
    using t by (intro base64_take) simp
  ultimately show ?thesis using assms by simp
next
  case False
  then have s: "take 24 s = s" by simp
  from assms have "length (take 24 s) = length (take 24 t)" by simp
  with False have "length t < 24" by simp
  then have "take 24 t = t" by simp
  with s assms show ?thesis by simp
qed

lemma cacheKey_prefix:
  "take 24 s = take 24 t \<Longrightarrow> template_cacheKey s = template_cacheKey t"
  using base64_prefix [of s t] by (simp add: template_cacheKey_def)

lemma cacheKey_nonempty: "template_cacheKey s \<noteq> []"
  by (simp add: template_cacheKey_def)

lemma parse_same: "emailMessageSchema_parse ex m = Inr vm \<Longrightarrow> vm = m"
  by (simp add: emailMessageSchema_parse_def split: if_splits)

lemma sendEmail_state:
  assumes "emailMessageSchema_parse ex m = Inr m" and "htmlContent ex svc m = (c, svc1)"
  shows "templateCache (snd (sendEmail ex svc m)) = templateCache svc1"
    and "calls (snd (sendEmail ex svc m)) =
           calls svc1 @ (case c of Inl e \<Rightarrow> []
                         | Inr h \<Rightarrow> [TransportSendMail (transporter svc1) (mailOptions svc1 m h)])"
  using assms
  by (auto simp add: sendEmail_def sendEmail_try_def Let_def split: sum.splits)

lemma htmlContent_miss:
  assumes "msg_templateHtml m = Some src" "src \<noteq> []" "msg_templateData m = Some d"
    "templateCache svc (template_cacheKey src) = None" "hb_compile ex src = Inr r"
  shows "htmlContent ex svc m =
           ((case r d of
               Inl e \<Rightarrow> Inl (JsError (''Failed to render template: ''
                                      @ error_message e ''Unknown error''))
             | Inr t \<Rightarrow> Inr (Some t)),
            svc\<lparr>calls := calls svc @ [HandlebarsCompile src],
                templateCache := (templateCache svc)(template_cacheKey src \<mapsto> r)\<rparr>)"
  using assms cacheKey_nonempty [of src]
  by (simp add: htmlContent_def renderTemplate_def compileTemplate_miss truthy_def
      split: sum.splits)

lemma htmlContent_hit:
  assumes "msg_templateHtml m = Some src" "src \<noteq> []" "msg_templateData m = Some d"
    "templateCache svc (template_cacheKey src) = Some r"
  shows "htmlContent ex svc m = ((case r d of
               Inl e \<Rightarrow> Inl (JsError (''Failed to render template: ''
                                      @ error_message e ''Unknown error''))
             | Inr t \<Rightarrow> Inr (Some t)), svc)"
  using assms cacheKey_nonempty [of src]
  by (simp add: htmlContent_def renderTemplate_def compileTemplate_hit truthy_def
      split: sum.splits)

lemma htmlContent_no_data:
  assumes "msg_templateHtml m = Some src" "src \<noteq> []" "msg_templateData m = None"
  shows "templateCache (snd (htmlContent ex svc m)) = templateCache svc"
    and "calls (snd (htmlContent ex svc m)) = calls svc @ [HandlebarsCompile src]"
  using assms compileTemplate_no_key [of None ex svc src]
  by (auto simp add: htmlContent_def renderTemplate_def truthy_def
      split: sum.splits prod.splits)



lemma sendEmail_keeps:
  "transporter (snd (sendEmail ex svc m)) = transporter svc
   \<and> defaultFrom (snd (sendEmail ex svc m)) = defaultFrom svc"
proof (cases "emailMessageSchema_parse ex m")
  case (Inl e)
  then show ?thesis by (simp add: sendEmail_def sendEmail_try_def)
next
  case (Inr vm)
  obtain c svc1 where c: "htmlContent ex svc vm = (c, svc1)"
    by (cases "htmlContent ex svc vm") auto
  from htmlContent_keeps [OF c] Inr c show ?thesis
    by (cases c) (simp_all add: sendEmail_def sendEmail_try_def Let_def split: sum.splits)
qed

lemma mailOptions_cong:
  "defaultFrom svcA = defaultFrom svc \<Longrightarrow> mailOptions svcA m x = mailOptions svc m x"
  by (simp add: mailOptions_def from_header_def)

lemma first_send_populates:
  assumes "emailMessageSchema_parse ex m1 = Inr m1" "msg_templateHtml m1 = Some src1"
    "src1 \<noteq> []" "msg_templateData m1 = Some d1" "hb_compile ex src1 = Inr r1"
    "templateCache svc (template_cacheKey src1) = None"
  shows "templateCache (snd (sendEmail ex svc m1)) = (templateCache svc)(template_cacheKey src1 \<mapsto> r1)"
proof -
  note c = htmlContent_miss [OF assms(2) assms(3) assms(4) assms(6) assms(5)]
  from sendEmail_state(1) [OF assms(1) c] show ?thesis by simp
qed

lemma second_send_reuses:
  assumes "emailMessageSchema_parse ex m2 = Inr m2" "msg_templateHtml m2 = Some src2"
    "src2 \<noteq> []" "msg_templateData m2 = Some d2"
    "templateCache svcA (template_cacheKey src2) = Some r1"
  shows "calls (snd (sendEmail ex svcA m2)) =
           calls svcA @ (case r1 d2 of
                   Inl e \<Rightarrow> []
                 | Inr t \<Rightarrow> [TransportSendMail (transporter svcA) (mailOptions svcA m2 (Some t))])"
    and "templateCache (snd (sendEmail ex svcA m2)) = templateCache svcA"
proof -
  note c = htmlContent_hit [OF assms(2) assms(3) assms(4) assms(5), of ex]
  from sendEmail_state(2) [OF assms(1) c]
  show "calls (snd (sendEmail ex svcA m2)) =
           calls svcA @ (case r1 d2 of
                   Inl e \<Rightarrow> []
                 | Inr t \<Rightarrow> [TransportSendMail (transporter svcA) (mailOptions svcA m2 (Some t))])"
    by (cases "r1 d2") simp_all
  from sendEmail_state(1) [OF assms(1) c]
  show "templateCache (snd (sendEmail ex svcA m2)) = templateCache svcA" .
qed

lemma send_without_data:
  assumes "emailMessageSchema_parse ex m = Inr m" "msg_templateHtml m = Some src" "src \<noteq> []"
    "msg_templateData m = None"
  shows "templateCache (snd (sendEmail ex svc m)) = templateCache svc"
    and "\<exists>rest. calls (snd (sendEmail ex svc m)) = calls svc @ HandlebarsCompile src # rest"
proof -
  obtain c svc1 where c: "htmlContent ex svc m = (c, svc1)"
    by (cases "htmlContent ex svc m") auto
  from htmlContent_no_data [OF assms(2) assms(3) assms(4), of ex svc] c
  have s1: "templateCache svc1 = templateCache svc"
    "calls svc1 = calls svc @ [HandlebarsCompile src]" by simp_all
  show "templateCache (snd (sendEmail ex svc m)) = templateCache svc"
    using sendEmail_state(1) [OF assms(1) c] s1 by simp
  show "\<exists>rest. calls (snd (sendEmail ex svc m)) = calls svc @ HandlebarsCompile src # rest"
    using sendEmail_state(2) [OF assms(1) c] s1 by simp
qed

lemma prefix_nonempty: "take 24 s = take 24 t \<Longrightarrow> s \<noteq> [] \<Longrightarrow> t \<noteq> []"
  by (cases s) auto



lemma collision_reuse:
  assumes p1: "emailMessageSchema_parse ex m1 = Inr m1" and t1: "msg_templateHtml m1 = Some src1"
      and d1: "msg_templateData m1 = Some d1" and n1: "src1 \<noteq> []"
      and r1: "hb_compile ex src1 = Inr r1"
      and miss: "templateCache svc (template_cacheKey src1) = None"
      and p2: "emailMessageSchema_parse ex m2 = Inr m2" and t2: "msg_templateHtml m2 = Some src2"
      and d2: "msg_templateData m2 = Some d2" and pre: "take 24 src1 = take 24 src2"
  shows "templateCache (snd (sendEmail ex svc m1)) (template_cacheKey src2) = Some r1
          \<and> calls (snd (sendEmail ex (snd (sendEmail ex svc m1)) m2)) =
              calls (snd (sendEmail ex svc m1))
              @ (case r1 d2 of
                   Inl e \<Rightarrow> []
                 | Inr t \<Rightarrow> [TransportSendMail (transporter svc) (mailOptions svc m2 (Some t))])
          \<and> templateCache (snd (sendEmail ex (snd (sendEmail ex svc m1)) m2))
              = templateCache (snd (sendEmail ex svc m1))"
proof -
  have key: "template_cacheKey src1 = template_cacheKey src2"
    using pre by (rule cacheKey_prefix)
  have n2: "src2 \<noteq> []"
    using pre n1 by (rule prefix_nonempty)
  have pop: "templateCache (snd (sendEmail ex svc m1)) = (templateCache svc)(template_cacheKey src1 \<mapsto> r1)"
    using p1 t1 n1 d1 r1 miss by (rule first_send_populates)
  have hit: "templateCache (snd (sendEmail ex svc m1)) (template_cacheKey src2) = Some r1"
    by (simp only: pop key fun_upd_same)
  note k = sendEmail_keeps [of ex svc m1]
  have mo: "mailOptions (snd (sendEmail ex svc m1)) m2 x = mailOptions svc m2 x" for x
    using k by (intro mailOptions_cong) simp
  have tr: "transporter (snd (sendEmail ex svc m1)) = transporter svc"
    using k by simp
  note s = second_send_reuses [OF p2 t2 n2 d2 hit]
  show ?thesis
    using hit s(1) s(2) by (simp only: mo tr simp_thms)
qed


text \<open>
  C10. For a templated send with \<open>templateData\<close> supplied, the cache key is \<open>template_\<close>
  followed by the first 32 characters of the base64 text of the template source, so it
  depends only on the first 24 bytes of the source: two sources that agree on their first
  24 bytes have the same key, and after a first such send has compiled and cached its
  template, a second send with the other source compiles nothing and is rendered by the
  renderer of the first template. When \<open>templateData\<close> is absent the cache is left as it
  was and the template is compiled on every send.
\<close>

theorem template_cache_key_collision:
  "template_cacheKey src = ''template_'' @ take 32 (base64 src)
   \<and> (take 24 src1 = take 24 src2 \<longrightarrow> template_cacheKey src1 = template_cacheKey src2)
   \<and> (emailMessageSchema_parse ex m1 = Inr m1 \<and> msg_templateHtml m1 = Some src1
        \<and> msg_templateData m1 = Some d1 \<and> src1 \<noteq> [] \<and> hb_compile ex src1 = Inr r1
        \<and> templateCache svc (template_cacheKey src1) = None
        \<and> emailMessageSchema_parse ex m2 = Inr m2 \<and> msg_templateHtml m2 = Some src2
        \<and> msg_templateData m2 = Some d2 \<and> take 24 src1 = take 24 src2 \<longrightarrow>
          templateCache (snd (sendEmail ex svc m1)) (template_cacheKey src2) = Some r1
          \<and> calls (snd (sendEmail ex (snd (sendEmail ex svc m1)) m2)) =
              calls (snd (sendEmail ex svc m1))
              @ (case r1 d2 of
                   Inl e \<Rightarrow> []
                 | Inr t \<Rightarrow> [TransportSendMail (transporter svc) (mailOptions svc m2 (Some t))])
          \<and> templateCache (snd (sendEmail ex (snd (sendEmail ex svc m1)) m2))
              = templateCache (snd (sendEmail ex svc m1)))
   \<and> (emailMessageSchema_parse ex m = Inr m \<and> msg_templateHtml m = Some src \<and> src \<noteq> []
        \<and> msg_templateData m = None \<longrightarrow>
          templateCache (snd (sendEmail ex svc m)) = templateCache svc
          \<and> (\<exists>rest. calls (snd (sendEmail ex svc m)) = calls svc @ HandlebarsCompile src # rest))"
proof -
  have a: "template_cacheKey src = ''template_'' @ take 32 (base64 src)"
    by (simp add: template_cacheKey_def)
  have b: "take 24 src1 = take 24 src2 \<longrightarrow> template_cacheKey src1 = template_cacheKey src2"
    by (intro impI) (rule cacheKey_prefix)
  have c: "emailMessageSchema_parse ex m1 = Inr m1 \<and> msg_templateHtml m1 = Some src1
        \<and> msg_templateData m1 = Some d1 \<and> src1 \<noteq> [] \<and> hb_compile ex src1 = Inr r1
        \<and> templateCache svc (template_cacheKey src1) = None
        \<and> emailMessageSchema_parse ex m2 = Inr m2 \<and> msg_templateHtml m2 = Some src2
        \<and> msg_templateData m2 = Some d2 \<and> take 24 src1 = take 24 src2 \<longrightarrow>
          templateCache (snd (sendEmail ex svc m1)) (template_cacheKey src2) = Some r1
          \<and> calls (snd (sendEmail ex (snd (sendEmail ex svc m1)) m2)) =
              calls (snd (sendEmail ex svc m1))
              @ (case r1 d2 of
                   Inl e \<Rightarrow> []
                 | Inr t \<Rightarrow> [TransportSendMail (transporter svc) (mailOptions svc m2 (Some t))])
          \<and> templateCache (snd (sendEmail ex (snd (sendEmail ex svc m1)) m2))
              = templateCache (snd (sendEmail ex svc m1))"
    by (intro impI, elim conjE, rule collision_reuse [where ?src1.0 = src1 and ?d1.0 = d1])
  have d: "emailMessageSchema_parse ex m = Inr m \<and> msg_templateHtml m = Some src \<and> src \<noteq> []
        \<and> msg_templateData m = None \<longrightarrow>
          templateCache (snd (sendEmail ex svc m)) = templateCache svc
          \<and> (\<exists>rest. calls (snd (sendEmail ex svc m)) = calls svc @ HandlebarsCompile src # rest)"
  proof (intro impI, elim conjE)
    assume h: "emailMessageSchema_parse ex m = Inr m" "msg_templateHtml m = Some src" "src \<noteq> []"
      "msg_templateData m = None"
    from send_without_data [OF h, of svc]
    show "templateCache (snd (sendEmail ex svc m)) = templateCache svc
          \<and> (\<exists>rest. calls (snd (sendEmail ex svc m)) = calls svc @ HandlebarsCompile src # rest)"
      by (rule conjI)
  qed
  show ?thesis
    by (rule conjI [OF a conjI [OF b conjI [OF c d]]])
qed

theorem template_cache_key_collision_witness:
  "template_cacheKey welcome_template = template_cacheKey code_template
   \<and> welcome_template \<noteq> code_template
   \<and> templateCache (snd (sendEmail demo_externals demo_service welcome_message))
        (template_cacheKey code_template) = Some (echo_renderer welcome_template)
   \<and> calls (snd (sendEmail demo_externals
                   (snd (sendEmail demo_externals demo_service welcome_message)) code_message)) =
       calls (snd (sendEmail demo_externals demo_service welcome_message))
       @ [TransportSendMail demo_options
            \<lparr>mo_from = ''noreply@example.com'', mo_to = One ''bob@example.com'',
             mo_subject = ''Hello'', mo_text = None, mo_html = Some welcome_template,
             mo_cc = None, mo_bcc = None, mo_attachments = None\<rparr>]
   \<and> templateCache (snd (sendEmail demo_externals demo_service plain_welcome_message))
       = templateCache demo_service"
proof -
  have ne: "welcome_template \<noteq> code_template"
    by (simp add: welcome_template_def code_template_def)
  have pre: "take 24 welcome_template = take 24 code_template"
    by (simp add: welcome_template_def code_template_def)
  have n1: "welcome_template \<noteq> []"
    by (simp add: welcome_template_def)
  have p1: "emailMessageSchema_parse demo_externals welcome_message = Inr welcome_message"
    using n1 by (simp add: parse_defs welcome_message_def text_message_def demo_externals_def)
  have p2: "emailMessageSchema_parse demo_externals code_message = Inr code_message"
    by (simp add: parse_defs code_message_def text_message_def demo_externals_def
        code_template_def)
  have p3: "emailMessageSchema_parse demo_externals plain_welcome_message = Inr plain_welcome_message"
    using n1 by (simp add: parse_defs plain_welcome_message_def welcome_message_def
        text_message_def demo_externals_def)
  have t1: "msg_templateHtml welcome_message = Some welcome_template"
    and d1: "msg_templateData welcome_message = Some [(''name'', JString ''Bob'')]"
    by (simp_all add: welcome_message_def)
  have t2: "msg_templateHtml code_message = Some code_template"
    and d2: "msg_templateData code_message = Some [(''code'', JString ''1234'')]"
    by (simp_all add: code_message_def)
  have t3: "msg_templateHtml plain_welcome_message = Some welcome_template"
    and d3: "msg_templateData plain_welcome_message = None"
    by (simp_all add: plain_welcome_message_def welcome_message_def)
  have r1: "hb_compile demo_externals welcome_template = Inr (echo_renderer welcome_template)"
    by (simp add: demo_externals_def)
  have miss: "templateCache demo_service (template_cacheKey welcome_template) = None"
    by (simp add: demo_service_def)
  note T = template_cache_key_collision [where src = welcome_template
      and ?src1.0 = welcome_template and ?src2.0 = code_template and ex = demo_externals
      and ?m1.0 = welcome_message and ?d1.0 = "[(''name'', JString ''Bob'')]"
      and ?r1.0 = "echo_renderer welcome_template" and svc = demo_service
      and ?m2.0 = code_message and ?d2.0 = "[(''code'', JString ''1234'')]"
      and m = plain_welcome_message]
  note T2 = T [THEN conjunct2, THEN conjunct1, THEN mp, OF pre]
  have H3: "emailMessageSchema_parse demo_externals welcome_message = Inr welcome_message
      \<and> msg_templateHtml welcome_message = Some welcome_template
      \<and> msg_templateData welcome_message = Some [(''name'', JString ''Bob'')]
      \<and> welcome_template \<noteq> []
      \<and> hb_compile demo_externals welcome_template = Inr (echo_renderer welcome_template)
      \<and> templateCache demo_service (template_cacheKey welcome_template) = None
      \<and> emailMessageSchema_parse demo_externals code_message = Inr code_message
      \<and> msg_templateHtml code_message = Some code_template
      \<and> msg_templateData code_message = Some [(''code'', JString ''1234'')]
      \<and> take 24 welcome_template = take 24 code_template"
    using p1 t1 d1 n1 r1 miss p2 t2 d2 pre by (intro conjI)
  note T3 = T [THEN conjunct2, THEN conjunct2, THEN conjunct1, THEN mp, OF H3]
  have H4: "emailMessageSchema_parse demo_externals plain_welcome_message = Inr plain_welcome_message
      \<and> msg_templateHtml plain_welcome_message = Some welcome_template
      \<and> welcome_template \<noteq> [] \<and> msg_templateData plain_welcome_message = None"
    using p3 t3 n1 d3 by (intro conjI)
  note T4 = T [THEN conjunct2, THEN conjunct2, THEN conjunct2, THEN mp, OF H4]
  have e1: "echo_renderer welcome_template [(''code'', JString ''1234'')] = Inr welcome_template"
    by (simp add: echo_renderer_def)
  have e2: "mailOptions demo_service code_message (Some welcome_template) =
      \<lparr>mo_from = ''noreply@example.com'', mo_to = One ''bob@example.com'',
       mo_subject = ''Hello'', mo_text = None, mo_html = Some welcome_template,
       mo_cc = None, mo_bcc = None, mo_attachments = None\<rparr>"
    by (simp add: mailOptions_def from_header_def truthy_def code_message_def text_message_def
        demo_service_def)
  have e3: "transporter demo_service = demo_options"
    by (simp add: demo_service_def)
  have c3: "calls (snd (sendEmail demo_externals
                   (snd (sendEmail demo_externals demo_service welcome_message)) code_message)) =
       calls (snd (sendEmail demo_externals demo_service welcome_message))
       @ [TransportSendMail demo_options
            \<lparr>mo_from = ''noreply@example.com'', mo_to = One ''bob@example.com'',
             mo_subject = ''Hello'', mo_text = None, mo_html = Some welcome_template,
             mo_cc = None, mo_bcc = None, mo_attachments = None\<rparr>]"
    using T3 [THEN conjunct2, THEN conjunct1] by (simp only: e1 e2 e3 sum.case)
  show ?thesis
    using T2 ne T3 [THEN conjunct1] c3 T4 [THEN conjunct1] by (intro conjI)
qed

section \<open>Sending many messages\<close>




















section \<open>Sending by template and configuration name\<close>

lemma swt_shape:
  "fst (sendEmailWithTemplate ex penv config) = Inr ()
   \<or> (\<exists>detail. fst (sendEmailWithTemplate ex penv config) =
         Inl (JsError (''Failed to send email with template '' @ [CHR 0x27] @ templateName config
                       @ [CHR 0x27] @ '' to '' @ [CHR 0x27] @ swt_to config @ [CHR 0x27] @ '': ''
                       @ detail)))"
proof (cases "sendEmailWithTemplate_try ex penv config")
  case (Pair p cs)
  then show ?thesis
    by (cases p) (simp_all add: sendEmailWithTemplate_def)
qed

lemma swt_success_iff_try:
  "fst (sendEmailWithTemplate ex penv config) = Inr ()
     \<longleftrightarrow> fst (sendEmailWithTemplate_try ex penv config) = Inr ()"
proof (cases "sendEmailWithTemplate_try ex penv config")
  case (Pair p cs)
  then show ?thesis
    by (cases p) (simp_all add: sendEmailWithTemplate_def)
qed

lemma swt_calls:
  "snd (sendEmailWithTemplate ex penv config) = snd (sendEmailWithTemplate_try ex penv config)"
proof (cases "sendEmailWithTemplate_try ex penv config")
  case (Pair p cs)
  then show ?thesis
    by (cases p) (simp_all add: sendEmailWithTemplate_def)
qed

lemma retrieve_config_found:
  "email_findFirst config (emailConfigName config) = Inr (Some e) \<Longrightarrow>
     retrieveOneByConfigName (email_findFirst config) (emailConfigName config)
       = Inr (createResponse 200 ''Email retrieved successfully'' (Some e))"
  by (simp add: retrieveOneByConfigName_def)

lemma retrieve_config_data:
  "retrieveOneByConfigName findFirst name = Inr er \<Longrightarrow>
     resp_data er = Some e \<longleftrightarrow> findFirst name = Inr (Some e)"
  by (auto simp add: retrieveOneByConfigName_def createResponse_def
      split: sum.splits option.splits)

lemma try_resolved:
  assumes "retrieveEmailTemplate config (templateName config) = Inr tr" "resp_data tr = Some t"
    "email_findFirst config (emailConfigName config) = Inr (Some e)"
    "createEmailService ex penv = Inr svc"
  shows "sendEmailWithTemplate_try ex penv config =
     (case fst (sendEmail ex svc (template_message config t e)) of
        Inl err \<Rightarrow> Inl err
      | Inr result \<Rightarrow>
          if \<not> success result
          then Inl (JsError (if truthy (error result) then the (error result)
                             else ''Failed to send email''))
          else Inr (),
      calls (snd (sendEmail ex svc (template_message config t e))))"
  using assms retrieve_config_found [OF assms(3)]
  by (simp add: sendEmailWithTemplate_try_def createResponse_def split_beta split: sum.splits)

lemma try_success_only:
  assumes "fst (sendEmailWithTemplate_try ex penv config) = Inr ()"
  shows "\<exists>tr t e svc r. retrieveEmailTemplate config (templateName config) = Inr tr
           \<and> resp_data tr = Some t
           \<and> email_findFirst config (emailConfigName config) = Inr (Some e)
           \<and> createEmailService ex penv = Inr svc
           \<and> fst (sendEmail ex svc (template_message config t e)) = Inr r \<and> success r"
proof -
  from assms obtain tr where tr: "retrieveEmailTemplate config (templateName config) = Inr tr"
    by (cases "retrieveEmailTemplate config (templateName config)")
       (simp_all add: sendEmailWithTemplate_try_def)
  from assms tr obtain t where t: "resp_data tr = Some t"
    by (cases "resp_data tr") (simp_all add: sendEmailWithTemplate_try_def)
  from assms tr t obtain er
    where er: "retrieveOneByConfigName (email_findFirst config) (emailConfigName config) = Inr er"
    by (cases "retrieveOneByConfigName (email_findFirst config) (emailConfigName config)")
       (simp_all add: sendEmailWithTemplate_try_def)
  from assms tr t er obtain e where e: "resp_data er = Some e"
    by (cases "resp_data er") (simp_all add: sendEmailWithTemplate_try_def)
  from retrieve_config_data [OF er, of e] e
  have f: "email_findFirst config (emailConfigName config) = Inr (Some e)" by simp
  from assms tr t er e obtain svc where svc: "createEmailService ex penv = Inr svc"
    by (cases "createEmailService ex penv") (simp_all add: sendEmailWithTemplate_try_def)
  from assms have "\<exists>r. fst (sendEmail ex svc (template_message config t e)) = Inr r \<and> success r"
    unfolding try_resolved [OF tr t f svc]
    by (cases "fst (sendEmail ex svc (template_message config t e))")
       (simp_all split: if_splits)
  with tr t f svc show ?thesis by blast
qed


lemma blank_template_message_invalid:
  "tpl_html t = [] \<Longrightarrow>
     emailMessageSchema_parse ex (template_message config t e) \<noteq> Inr (template_message config t e)"
  by (simp add: emailMessageSchema_parse_def emailMessage_refine_def truthy_def
      template_message_def)

lemma invalid_send_fails:
  assumes "emailMessageSchema_parse ex m \<noteq> Inr m"
  shows "sendEmail ex svc m
       = (Inr \<lparr>success = False, messageId = None, error = Some (zod_message ex m)\<rparr>, svc)"
proof -
  from assms have "emailMessageSchema_parse ex m = Inl (JsError (zod_message ex m))"
    by (simp add: emailMessageSchema_parse_def split: if_splits)
  then show ?thesis
    by (simp add: sendEmail_def sendEmail_try_def error_message_def)
qed

text \<open>
  C7. Every call of \<open>sendEmailWithTemplate\<close> either returns or throws an error whose
  message starts with the fixed text, the requested template name and the recipient, so
  it contains both; it returns only when template and configuration were found, the
  dispatcher was built and the send was answered with \<open>success = true\<close>. In particular
  it throws when the template is not found, when the stored body is empty, when the
  configuration is not found, and when the send is answered with \<open>success = false\<close>.
\<close>

theorem sendEmailWithTemplate_raises:
  "(fst (sendEmailWithTemplate ex penv config) = Inr ()
    \<or> (\<exists>detail. fst (sendEmailWithTemplate ex penv config) =
          Inl (JsError (''Failed to send email with template '' @ [CHR 0x27] @ templateName config
                        @ [CHR 0x27] @ '' to '' @ [CHR 0x27] @ swt_to config @ [CHR 0x27] @ '': ''
                        @ detail))))
   \<and> (\<forall>m. fst (sendEmailWithTemplate ex penv config) = Inl (JsError m) \<longrightarrow>
          sublist (templateName config) m \<and> sublist (swt_to config) m)
   \<and> (fst (sendEmailWithTemplate ex penv config) = Inr () \<longleftrightarrow>
        (\<exists>tr t e svc r. retrieveEmailTemplate config (templateName config) = Inr tr
           \<and> resp_data tr = Some t
           \<and> email_findFirst config (emailConfigName config) = Inr (Some e)
           \<and> createEmailService ex penv = Inr svc
           \<and> fst (sendEmail ex svc (template_message config t e)) = Inr r \<and> success r))
   \<and> (retrieveEmailTemplate config (templateName config) = Inr tr \<and> resp_data tr = None \<longrightarrow>
        fst (sendEmailWithTemplate ex penv config) \<noteq> Inr ())
   \<and> (retrieveEmailTemplate config (templateName config) = Inr tr \<and> resp_data tr = Some t
        \<and> tpl_html t = [] \<longrightarrow>
        fst (sendEmailWithTemplate ex penv config) \<noteq> Inr ())
   \<and> (email_findFirst config (emailConfigName config) = Inr None \<longrightarrow>
        fst (sendEmailWithTemplate ex penv config) \<noteq> Inr ())
   \<and> (retrieveEmailTemplate config (templateName config) = Inr tr \<and> resp_data tr = Some t
        \<and> email_findFirst config (emailConfigName config) = Inr (Some e)
        \<and> createEmailService ex penv = Inr svc
        \<and> fst (sendEmail ex svc (template_message config t e)) = Inr r \<and> \<not> success r \<longrightarrow>
        fst (sendEmailWithTemplate ex penv config) \<noteq> Inr ())"
proof -
  let ?X = "fst (sendEmailWithTemplate ex penv config)"
  let ?S = "\<exists>tr t e svc r. retrieveEmailTemplate config (templateName config) = Inr tr
           \<and> resp_data tr = Some t
           \<and> email_findFirst config (emailConfigName config) = Inr (Some e)
           \<and> createEmailService ex penv = Inr svc
           \<and> fst (sendEmail ex svc (template_message config t e)) = Inr r \<and> success r"
  note c1 = swt_shape [of ex penv config]
  have c2: "\<forall>m. ?X = Inl (JsError m) \<longrightarrow>
          sublist (templateName config) m \<and> sublist (swt_to config) m"
  proof (intro allI impI)
    fix m assume m: "?X = Inl (JsError m)"
    with c1 obtain detail where d: "m = ''Failed to send email with template '' @ [CHR 0x27]
        @ templateName config @ [CHR 0x27] @ '' to '' @ [CHR 0x27] @ swt_to config @ [CHR 0x27]
        @ '': '' @ detail"
      by auto
    have "sublist (templateName config) m"
      unfolding d sublist_def
      by (rule exI [of _ "''Failed to send email with template '' @ [CHR 0x27]"],
          rule exI [of _ "[CHR 0x27] @ '' to '' @ [CHR 0x27] @ swt_to config @ [CHR 0x27]
              @ '': '' @ detail"]) simp
    moreover have "sublist (swt_to config) m"
      unfolding d sublist_def
      by (rule exI [of _ "''Failed to send email with template '' @ [CHR 0x27]
              @ templateName config @ [CHR 0x27] @ '' to '' @ [CHR 0x27]"],
          rule exI [of _ "[CHR 0x27] @ '': '' @ detail"]) simp
    ultimately show "sublist (templateName config) m \<and> sublist (swt_to config) m" ..
  qed
  have c3: "?X = Inr () \<longleftrightarrow> ?S"
  proof
    assume "?X = Inr ()"
    then have "fst (sendEmailWithTemplate_try ex penv config) = Inr ()"
      by (simp add: swt_success_iff_try)
    then show ?S by (rule try_success_only)
  next
    assume ?S
    then obtain tr t e svc r where h: "retrieveEmailTemplate config (templateName config) = Inr tr"
      "resp_data tr = Some t" "email_findFirst config (emailConfigName config) = Inr (Some e)"
      "createEmailService ex penv = Inr svc"
      "fst (sendEmail ex svc (template_message config t e)) = Inr r" "success r"
      by blast
    have "fst (sendEmailWithTemplate_try ex penv config) = Inr ()"
      unfolding try_resolved [OF h(1) h(2) h(3) h(4)] using h(5) h(6) by simp
    then show "?X = Inr ()" by (simp add: swt_success_iff_try)
  qed
  have c4: "?X \<noteq> Inr ()"
    if "retrieveEmailTemplate config (templateName config) = Inr tr \<and> resp_data tr = None"
    using that c3 by auto
  have c5: "?X \<noteq> Inr ()"
    if h: "retrieveEmailTemplate config (templateName config) = Inr tr \<and> resp_data tr = Some t
        \<and> tpl_html t = []"
  proof
    assume "?X = Inr ()"
    with c3 h obtain e svc r where
      r: "fst (sendEmail ex svc (template_message config t e)) = Inr r" "success r"
      by auto
    from h have "tpl_html t = []" by simp
    note inv = blank_template_message_invalid [OF this, of ex config e]
    from invalid_send_fails [OF inv, of svc] r
    show False by auto
  qed
  have c6: "?X \<noteq> Inr ()"
    if "email_findFirst config (emailConfigName config) = Inr None"
    using that c3 by auto
  have c7: "?X \<noteq> Inr ()"
    if "retrieveEmailTemplate config (templateName config) = Inr tr \<and> resp_data tr = Some t
        \<and> email_findFirst config (emailConfigName config) = Inr (Some e)
        \<and> createEmailService ex penv = Inr svc
        \<and> fst (sendEmail ex svc (template_message config t e)) = Inr r \<and> \<not> success r"
    using that c3 by auto
  from c1 c2 c3 c4 c5 c6 c7 show ?thesis by blast
qed


lemma demo_service_constructed:
  "createEmailService demo_externals demo_env = Inr demo_service"
  "createEmailService offline_externals demo_env = Inr demo_service"
  by (simp_all add: construct_defs demo_env_def demo_externals_def offline_externals_def
      demo_service_def demo_options_def)

lemma welcome_send:
  "sendEmail demo_externals demo_service (template_message welcome_request welcome_row support_row) =
     (Inr \<lparr>success = True, messageId = Some ''<1@mail.example.com>'', error = None\<rparr>,
      demo_service\<lparr>calls :=
        [HandlebarsCompile welcome_template,
         TransportSendMail demo_options
           \<lparr>mo_from = ''Support <support@support.example>'', mo_to = One ''bob@example.com'',
            mo_subject = ''Welcome'', mo_text = None, mo_html = Some welcome_template,
            mo_cc = None, mo_bcc = None, mo_attachments = None\<rparr>]\<rparr>)"
proof -
  have n: "welcome_template \<noteq> []"
    by (simp add: welcome_template_def)
  show ?thesis
    using n
    by (simp add: send_defs template_message_def welcome_request_def welcome_row_def
        support_row_def demo_externals_def demo_service_def echo_renderer_def)
qed

lemma welcome_send_offline:
  "fst (sendEmail offline_externals demo_service
          (template_message welcome_request welcome_row support_row)) =
     Inr \<lparr>success = False, messageId = None, error = Some ''connect ECONNREFUSED''\<rparr>"
proof -
  have n: "welcome_template \<noteq> []"
    by (simp add: welcome_template_def)
  show ?thesis
    using n
    by (simp add: send_defs template_message_def welcome_request_def welcome_row_def
        support_row_def demo_externals_def offline_externals_def demo_service_def
        echo_renderer_def)
qed

theorem sendEmailWithTemplate_raises_witness:
  "fst (sendEmailWithTemplate demo_externals demo_env welcome_request) = Inr ()
   \<and> fst (sendEmailWithTemplate demo_externals demo_env unknown_template_request) =
       Inl (JsError (''Failed to send email with template '' @ [CHR 0x27] @ ''missing''
                     @ [CHR 0x27] @ '' to '' @ [CHR 0x27] @ ''bob@example.com'' @ [CHR 0x27]
                     @ '': Email template '' @ [CHR 0x27] @ ''missing'' @ [CHR 0x27]
                     @ '' not found or has no data''))
   \<and> sublist ''missing''
        (''Failed to send email with template '' @ [CHR 0x27] @ ''missing''
         @ [CHR 0x27] @ '' to '' @ [CHR 0x27] @ ''bob@example.com'' @ [CHR 0x27]
         @ '': Email template '' @ [CHR 0x27] @ ''missing'' @ [CHR 0x27]
         @ '' not found or has no data'')
   \<and> sublist ''bob@example.com''
        (''Failed to send email with template '' @ [CHR 0x27] @ ''missing''
         @ [CHR 0x27] @ '' to '' @ [CHR 0x27] @ ''bob@example.com'' @ [CHR 0x27]
         @ '': Email template '' @ [CHR 0x27] @ ''missing'' @ [CHR 0x27]
         @ '' not found or has no data'')
   \<and> fst (sendEmailWithTemplate demo_externals demo_env unknown_template_request) \<noteq> Inr ()
   \<and> fst (sendEmailWithTemplate demo_externals demo_env blank_template_request) \<noteq> Inr ()
   \<and> fst (sendEmailWithTemplate demo_externals demo_env unknown_config_request) \<noteq> Inr ()
   \<and> fst (sendEmailWithTemplate offline_externals demo_env welcome_request) \<noteq> Inr ()"
proof -
  let ?M = "''Failed to send email with template '' @ [CHR 0x27] @ ''missing''
         @ [CHR 0x27] @ '' to '' @ [CHR 0x27] @ ''bob@example.com'' @ [CHR 0x27]
         @ '': Email template '' @ [CHR 0x27] @ ''missing'' @ [CHR 0x27]
         @ '' not found or has no data''"
  have tw: "retrieveEmailTemplate welcome_request (templateName welcome_request)
      = Inr (createResponse 200 ''Email template retrieved successfully'' (Some welcome_row))"
    and dw: "resp_data (createResponse 200 ''Email template retrieved successfully''
                (Some welcome_row)) = Some welcome_row"
    and fw: "email_findFirst welcome_request (emailConfigName welcome_request)
      = Inr (Some support_row)"
    by (simp_all add: request_defs)
  have tm: "retrieveEmailTemplate unknown_template_request (templateName unknown_template_request)
      = Inr (createResponse 404 ''Email template not found'' None)"
    and dm: "resp_data (createResponse 404 ''Email template not found''
                (None :: EmailTemplateRow option)) = None"
    by (simp_all add: request_defs unknown_template_request_def)
  have tb: "retrieveEmailTemplate blank_template_request (templateName blank_template_request)
      = Inr (createResponse 200 ''Email template retrieved successfully'' (Some blank_row))"
    and db: "resp_data (createResponse 200 ''Email template retrieved successfully''
                (Some blank_row)) = Some blank_row"
    and hb: "tpl_html blank_row = []"
    by (simp_all add: request_defs blank_template_request_def)
  have fc: "email_findFirst unknown_config_request (emailConfigName unknown_config_request)
      = Inr None"
    by (simp add: request_defs unknown_config_request_def)
  have em: "fst (sendEmailWithTemplate demo_externals demo_env unknown_template_request) =
       Inl (JsError ?M)"
    by (simp add: sendEmailWithTemplate_def sendEmailWithTemplate_try_def request_defs
        unknown_template_request_def
        error_message_or_string_def)
  note T = sendEmailWithTemplate_raises
  have ok: "fst (sendEmailWithTemplate demo_externals demo_env welcome_request) = Inr ()"
  proof -
    have "\<exists>tr t e svc r.
        retrieveEmailTemplate welcome_request (templateName welcome_request) = Inr tr
        \<and> resp_data tr = Some t
        \<and> email_findFirst welcome_request (emailConfigName welcome_request) = Inr (Some e)
        \<and> createEmailService demo_externals demo_env = Inr svc
        \<and> fst (sendEmail demo_externals svc (template_message welcome_request t e)) = Inr r
        \<and> success r"
      using tw dw fw demo_service_constructed(1) welcome_send
      by (intro exI [of _ "createResponse 200 ''Email template retrieved successfully''
              (Some welcome_row)"] exI [of _ welcome_row] exI [of _ support_row]
            exI [of _ demo_service]
            exI [of _ "\<lparr>success = True, messageId = Some ''<1@mail.example.com>'', error = None\<rparr>"])
         simp
    with T [of demo_externals demo_env welcome_request, THEN conjunct2, THEN conjunct2,
        THEN conjunct1]
    show ?thesis by (rule iffD2)
  qed
  note T2 = T [of demo_externals demo_env unknown_template_request, THEN conjunct2,
      THEN conjunct1, THEN spec, THEN mp, OF em]
  have s1: "sublist ''missing'' ?M" and s2: "sublist ''bob@example.com'' ?M"
    using T2 by (simp_all add: unknown_template_request_def welcome_request_def)
  have n1: "fst (sendEmailWithTemplate demo_externals demo_env unknown_template_request) \<noteq> Inr ()"
    using T [where ex = demo_externals and penv = demo_env and config = unknown_template_request
        and tr = "createResponse 404 ''Email template not found'' None",
        THEN conjunct2, THEN conjunct2, THEN conjunct2, THEN conjunct1] tm dm
    by blast
  have n2: "fst (sendEmailWithTemplate demo_externals demo_env blank_template_request) \<noteq> Inr ()"
    using T [where ex = demo_externals and penv = demo_env and config = blank_template_request
        and tr = "createResponse 200 ''Email template retrieved successfully'' (Some blank_row)"
        and t = blank_row,
        THEN conjunct2, THEN conjunct2, THEN conjunct2, THEN conjunct2, THEN conjunct1] tb db hb
    by blast
  have n3: "fst (sendEmailWithTemplate demo_externals demo_env unknown_config_request) \<noteq> Inr ()"
    using T [where ex = demo_externals and penv = demo_env and config = unknown_config_request,
        THEN conjunct2, THEN conjunct2, THEN conjunct2, THEN conjunct2, THEN conjunct2,
        THEN conjunct1] fc
    by blast
  have n4: "fst (sendEmailWithTemplate offline_externals demo_env welcome_request) \<noteq> Inr ()"
    using T [where ex = offline_externals and penv = demo_env and config = welcome_request
        and tr = "createResponse 200 ''Email template retrieved successfully'' (Some welcome_row)"
        and t = welcome_row and e = support_row and svc = demo_service
        and r = "\<lparr>success = False, messageId = None, error = Some ''connect ECONNREFUSED''\<rparr>",
        THEN conjunct2, THEN conjunct2, THEN conjunct2, THEN conjunct2, THEN conjunct2,
        THEN conjunct2] tw dw fw demo_service_constructed(2) welcome_send_offline
    by simp
  from ok em s1 s2 n1 n2 n3 n4 show ?thesis by (intro conjI)
qed


lemma constructed_from_env:
  assumes "createEmailService ex penv = Inr svc"
  shows "transporter svc =
           \<lparr>opt_host = the (SMTP_HOST penv),
            opt_port = coerce_number ex (env_input (SMTP_PORT penv)),
            opt_secure = input_strict_eq (env_input (SMTP_PORT penv)) (Num 465),
            opt_requireTLS = None,
            opt_auth_user = the (SMTP_USER penv),
            opt_auth_pass = the (SMTP_PASSWORD penv),
            opt_service = None, opt_tls = None, opt_connectionTimeout = None,
            opt_greetingTimeout = None, opt_socketTimeout = None\<rparr>"
    and "defaultFrom svc = the (SMTP_USER penv)"
    and "templateCache svc = Map.empty" and "calls svc = []"
  using assms
  by (auto simp add: createEmailService_def new_EmailSMTPService_def env_config_def truthy_def
      split: if_splits)

text \<open>
  C5 fails where it says that the dispatcher is built from the resolved named
  configuration: the stored configuration names the server \<open>mail.support.example\<close>, port
  465 and its own user, and the mail is handed to a transport for the server, port and
  user of the process environment.
\<close>

theorem named_configuration_counterexample:
  "email_findFirst welcome_request (emailConfigName welcome_request) = Inr (Some support_row)
   \<and> row_host support_row = ''mail.support.example''
   \<and> row_port support_row = Num 465
   \<and> row_username support_row = ''support@support.example''
   \<and> sendEmailWithTemplate demo_externals demo_env welcome_request =
       (Inr (),
        [HandlebarsCompile welcome_template,
         TransportSendMail
           \<lparr>opt_host = ''smtp.example.com'', opt_port = Num 587, opt_secure = False,
            opt_requireTLS = None, opt_auth_user = ''noreply@example.com'',
            opt_auth_pass = ''secret'', opt_service = None, opt_tls = None,
            opt_connectionTimeout = None, opt_greetingTimeout = None,
            opt_socketTimeout = None\<rparr>
           \<lparr>mo_from = ''Support <support@support.example>'', mo_to = One ''bob@example.com'',
            mo_subject = ''Welcome'', mo_text = None, mo_html = Some welcome_template,
            mo_cc = None, mo_bcc = None, mo_attachments = None\<rparr>])"
proof -
  have f: "email_findFirst welcome_request (emailConfigName welcome_request) = Inr (Some support_row)"
    by (simp add: request_defs)
  have r: "row_host support_row = ''mail.support.example''" "row_port support_row = Num 465"
    "row_username support_row = ''support@support.example''"
    by (simp_all add: support_row_def)
  have t: "retrieveEmailTemplate welcome_request (templateName welcome_request)
      = Inr (createResponse 200 ''Email template retrieved successfully'' (Some welcome_row))"
    and d: "resp_data (createResponse 200 ''Email template retrieved successfully''
                (Some welcome_row)) = Some welcome_row"
    by (simp_all add: request_defs)
  have "sendEmailWithTemplate_try demo_externals demo_env welcome_request =
      (Inr (),
        [HandlebarsCompile welcome_template,
         TransportSendMail demo_options
           \<lparr>mo_from = ''Support <support@support.example>'', mo_to = One ''bob@example.com'',
            mo_subject = ''Welcome'', mo_text = None, mo_html = Some welcome_template,
            mo_cc = None, mo_bcc = None, mo_attachments = None\<rparr>])"
    unfolding try_resolved [OF t d f demo_service_constructed(1)] welcome_send
    by simp
  then have "sendEmailWithTemplate demo_externals demo_env welcome_request =
      (Inr (),
        [HandlebarsCompile welcome_template,
         TransportSendMail demo_options
           \<lparr>mo_from = ''Support <support@support.example>'', mo_to = One ''bob@example.com'',
            mo_subject = ''Welcome'', mo_text = None, mo_html = Some welcome_template,
            mo_cc = None, mo_bcc = None, mo_attachments = None\<rparr>])"
    by (simp add: sendEmailWithTemplate_def)
  with f r show ?thesis
    by (simp add: demo_options_def)
qed

text \<open>
  C5, amended. After the template and the named configuration are both resolved, the
  dispatcher that performs the send is the one \<open>createEmailService\<close> builds from the
  process environment (host, port, user and password of the \<open>SMTP_\<close> variables; \<open>secure\<close>
  is the comparison of the port variable with 465); of the named configuration only the
  sender name and address enter, as \<open>name\<close> and \<open>from\<close> of the message. The message has
  the recipient, the resolved template body as \<open>templateHtml\<close>, the template data, and
  the stored subject unless a non-empty subject override is supplied.
\<close>

theorem sendEmailWithTemplate_dispatch:
  "(retrieveEmailTemplate config (templateName config) = Inr tr \<and> resp_data tr = Some t
    \<and> email_findFirst config (emailConfigName config) = Inr (Some e)
    \<and> createEmailService ex penv = Inr svc \<longrightarrow>
      transporter svc =
        \<lparr>opt_host = the (SMTP_HOST penv),
         opt_port = coerce_number ex (env_input (SMTP_PORT penv)),
         opt_secure = input_strict_eq (env_input (SMTP_PORT penv)) (Num 465),
         opt_requireTLS = None,
         opt_auth_user = the (SMTP_USER penv),
         opt_auth_pass = the (SMTP_PASSWORD penv),
         opt_service = None, opt_tls = None, opt_connectionTimeout = None,
         opt_greetingTimeout = None, opt_socketTimeout = None\<rparr>
      \<and> defaultFrom svc = the (SMTP_USER penv)
      \<and> snd (sendEmailWithTemplate ex penv config)
          = calls (snd (sendEmail ex svc (template_message config t e)))
      \<and> (fst (sendEmailWithTemplate ex penv config) = Inr () \<longleftrightarrow>
           (\<exists>r. fst (sendEmail ex svc (template_message config t e)) = Inr r \<and> success r)))
   \<and> template_message config t e =
       \<lparr>msg_to = One (swt_to config),
        msg_subject = (case swt_subject config of
                         None \<Rightarrow> tpl_subject t
                       | Some s \<Rightarrow> if s = [] then tpl_subject t else s),
        msg_text = None, msg_html = None,
        msg_templateHtml = Some (tpl_html t),
        msg_templateData = swt_templateData config,
        msg_name = Some (row_fromName e),
        msg_from = Some (row_fromEmail e),
        msg_cc = None, msg_bcc = None, msg_attachments = None\<rparr>"
proof -
  have a: "transporter svc =
        \<lparr>opt_host = the (SMTP_HOST penv),
         opt_port = coerce_number ex (env_input (SMTP_PORT penv)),
         opt_secure = input_strict_eq (env_input (SMTP_PORT penv)) (Num 465),
         opt_requireTLS = None,
         opt_auth_user = the (SMTP_USER penv),
         opt_auth_pass = the (SMTP_PASSWORD penv),
         opt_service = None, opt_tls = None, opt_connectionTimeout = None,
         opt_greetingTimeout = None, opt_socketTimeout = None\<rparr>
      \<and> defaultFrom svc = the (SMTP_USER penv)
      \<and> snd (sendEmailWithTemplate ex penv config)
          = calls (snd (sendEmail ex svc (template_message config t e)))
      \<and> (fst (sendEmailWithTemplate ex penv config) = Inr () \<longleftrightarrow>
           (\<exists>r. fst (sendEmail ex svc (template_message config t e)) = Inr r \<and> success r))"
    if h: "retrieveEmailTemplate config (templateName config) = Inr tr \<and> resp_data tr = Some t
      \<and> email_findFirst config (emailConfigName config) = Inr (Some e)
      \<and> createEmailService ex penv = Inr svc"
  proof -
    from h have h1: "retrieveEmailTemplate config (templateName config) = Inr tr"
      and h2: "resp_data tr = Some t"
      and h3: "email_findFirst config (emailConfigName config) = Inr (Some e)"
      and h4: "createEmailService ex penv = Inr svc"
      by simp_all
    note tryr = try_resolved [OF h1 h2 h3 h4]
    have c: "snd (sendEmailWithTemplate ex penv config)
          = calls (snd (sendEmail ex svc (template_message config t e)))"
      by (simp add: swt_calls tryr)
    have s: "fst (sendEmailWithTemplate ex penv config) = Inr () \<longleftrightarrow>
           (\<exists>r. fst (sendEmail ex svc (template_message config t e)) = Inr r \<and> success r)"
      unfolding swt_success_iff_try tryr
      by (cases "fst (sendEmail ex svc (template_message config t e))") auto
    from constructed_from_env(1) [OF h4] constructed_from_env(2) [OF h4] c s
    show ?thesis by (intro conjI)
  qed
  have b: "template_message config t e =
       \<lparr>msg_to = One (swt_to config),
        msg_subject = (case swt_subject config of
                         None \<Rightarrow> tpl_subject t
                       | Some s \<Rightarrow> if s = [] then tpl_subject t else s),
        msg_text = None, msg_html = None,
        msg_templateHtml = Some (tpl_html t),
        msg_templateData = swt_templateData config,
        msg_name = Some (row_fromName e),
        msg_from = Some (row_fromEmail e),
        msg_cc = None, msg_bcc = None, msg_attachments = None\<rparr>"
    by (simp add: template_message_def truthy_def split: option.splits)
  show ?thesis
    by (rule conjI [OF impI [OF a] b])
qed

theorem sendEmailWithTemplate_dispatch_witness:
  "transporter demo_service =
        \<lparr>opt_host = ''smtp.example.com'', opt_port = Num 587, opt_secure = False,
         opt_requireTLS = None, opt_auth_user = ''noreply@example.com'',
         opt_auth_pass = ''secret'', opt_service = None, opt_tls = None,
         opt_connectionTimeout = None, opt_greetingTimeout = None, opt_socketTimeout = None\<rparr>
   \<and> snd (sendEmailWithTemplate demo_externals demo_env welcome_request)
       = calls (snd (sendEmail demo_externals demo_service
                  (template_message welcome_request welcome_row support_row)))
   \<and> msg_subject (template_message welcome_request welcome_row support_row) = ''Welcome''
   \<and> msg_subject (template_message (welcome_request\<lparr>swt_subject := Some ''Hi there''\<rparr>)
         welcome_row support_row) = ''Hi there''
   \<and> msg_templateHtml (template_message welcome_request welcome_row support_row)
       = Some welcome_template"
proof -
  have t: "retrieveEmailTemplate welcome_request (templateName welcome_request)
      = Inr (createResponse 200 ''Email template retrieved successfully'' (Some welcome_row))"
    and d: "resp_data (createResponse 200 ''Email template retrieved successfully''
                (Some welcome_row)) = Some welcome_row"
    and f: "email_findFirst welcome_request (emailConfigName welcome_request)
      = Inr (Some support_row)"
    by (simp_all add: request_defs)
  have H: "retrieveEmailTemplate welcome_request (templateName welcome_request)
        = Inr (createResponse 200 ''Email template retrieved successfully'' (Some welcome_row))
    \<and> resp_data (createResponse 200 ''Email template retrieved successfully''
                (Some welcome_row)) = Some welcome_row
    \<and> email_findFirst welcome_request (emailConfigName welcome_request) = Inr (Some support_row)
    \<and> createEmailService demo_externals demo_env = Inr demo_service"
    using t d f demo_service_constructed(1) by (intro conjI)
  note T = sendEmailWithTemplate_dispatch [where config = welcome_request
      and tr = "createResponse 200 ''Email template retrieved successfully'' (Some welcome_row)"
      and t = welcome_row and e = support_row and ex = demo_externals and penv = demo_env
      and svc = demo_service]
  note T1 = T [THEN conjunct1, THEN mp, OF H]
  note T2 = T [THEN conjunct2]
  note U2 = sendEmailWithTemplate_dispatch [where config = "welcome_request\<lparr>swt_subject := Some ''Hi there''\<rparr>"
      and t = welcome_row and e = support_row, THEN conjunct2]
  have a: "transporter demo_service =
        \<lparr>opt_host = ''smtp.example.com'', opt_port = Num 587, opt_secure = False,
         opt_requireTLS = None, opt_auth_user = ''noreply@example.com'',
         opt_auth_pass = ''secret'', opt_service = None, opt_tls = None,
         opt_connectionTimeout = None, opt_greetingTimeout = None, opt_socketTimeout = None\<rparr>"
    using T1 [THEN conjunct1]
    by (simp add: demo_env_def demo_externals_def coerce_number_def env_input_def
        input_strict_eq_def)
  have b: "msg_subject (template_message welcome_request welcome_row support_row) = ''Welcome''"
    unfolding T2 by (simp add: welcome_request_def welcome_row_def)
  have c: "msg_subject (template_message (welcome_request\<lparr>swt_subject := Some ''Hi there''\<rparr>)
         welcome_row support_row) = ''Hi there''"
    unfolding U2 by (simp add: welcome_request_def welcome_row_def)
  have e: "msg_templateHtml (template_message welcome_request welcome_row support_row)
       = Some welcome_template"
    unfolding T2 by (simp add: welcome_row_def)
  from a T1 [THEN conjunct2, THEN conjunct2, THEN conjunct1] b c e
  show ?thesis by (intro conjI)
qed

end
